theory Spec2Isabelle
  imports Main "HOL-Library.Sublist"
begin

section \<open>Errors raised by the program\<close>

text \<open>
  Every exception that the modelled paths of \<^verbatim>\<open>get_snotel_shef.py\<close> can raise is a
  value of this type. \<open>UnboundLocalError\<close> carries the name of the local variable that
  was read before any assignment, \<open>FileNotFoundError\<close> the path that was opened or
  removed, \<open>RequestError\<close> stands for whatever \<^verbatim>\<open>requests.get\<close> or
  \<^verbatim>\<open>response.json()\<close> raise.
\<close>

datatype error =
    UnboundLocalError string
  | FileNotFoundError string
  | TypeError
  | ValueError
  | KeyError
  | OutOfBoundsDatetime
  | SameFileError
  | RequestError

section \<open>Text files as line sequences\<close>

abbreviation NL :: char where
  "NL \<equiv> CHR 0x0A"

text \<open>
  \<^verbatim>\<open>file.readlines()\<close> and iteration over a file object: the content is cut after
  every newline, each line keeps its terminator, and a last line without terminator is
  returned as it is. File contents are the text as Python's text mode hands it over.
\<close>

fun readlines :: "string \<Rightarrow> string list" where
  "readlines [] = []"
| "readlines (c # cs) =
     (if c = NL then [c] # readlines cs
      else (case readlines cs of [] \<Rightarrow> [[c]] | l # ls \<Rightarrow> (c # l) # ls))"

section \<open>StationBatcher: the loop of lines 230-231\<close>

text \<open>
  \<^verbatim>\<open>range(start, stop, step)\<close> for natural \<open>start\<close>, \<open>stop\<close> and a positive
  \<open>step\<close>, as the list of its values.
\<close>

function range_step :: "nat \<Rightarrow> nat \<Rightarrow> nat \<Rightarrow> nat list" where
  "range_step i stop step =
     (if 0 < step \<and> i < stop then i # range_step (i + step) stop step else [])"
  by pat_completeness auto
termination
  by (relation "measure (\<lambda>(i, stop, step). stop - i)") auto

declare range_step.simps [simp del]

text \<open>\<^verbatim>\<open>df.iloc[i:j]\<close> with \<open>0 \<le> i \<le> j\<close>: rows \<open>i\<close> to \<open>j - 1\<close>, cut at the end.\<close>

definition iloc :: "nat \<Rightarrow> nat \<Rightarrow> 'a list \<Rightarrow> 'a list" where
  "iloc i j xs = take (j - i) (drop i xs)"

text \<open>
  \<^verbatim>\<open>for i in range(0, len(snotel_meta_df), max_call_ids):
      subset_df = snotel_meta_df.iloc[i:(i + max_call_ids)]\<close>
  The list of the \<open>subset_df\<close> of all iterations. \<^verbatim>\<open>range\<close> raises ValueError for a
  zero step and is empty for a negative one.
\<close>

definition batches :: "int \<Rightarrow> 'a list \<Rightarrow> error + 'a list list" where
  "batches max_call_ids df =
     (if max_call_ids = 0 then Inl ValueError
      else if max_call_ids < 0 then Inr []
      else Inr (map (\<lambda>i. iloc i (i + nat max_call_ids) df)
                  (range_step 0 (length df) (nat max_call_ids))))"

section \<open>SnapshotDiffer and Deduplicator on line sequences\<close>

text \<open>Lines 158-162: the number of header rows of a format; unset for any other format.\<close>

definition start_row :: "string \<Rightarrow> nat option" where
  "start_row out_fmt =
     (if out_fmt = ''csv'' then Some 1
      else if out_fmt = ''shef'' then Some 2
      else None)"

text \<open>
  Lines 170-171: \<^verbatim>\<open>set_last = set(last_lines); diff = [x for x in new_lines if x not in set_last]\<close>.
\<close>

definition diff :: "string list \<Rightarrow> string list \<Rightarrow> string list" where
  "diff last_lines new_lines = filter (\<lambda>x. x \<notin> set last_lines) new_lines"

text \<open>
  Lines 165-171 on the texts of the two files: both bodies are the lines after the first
  \<open>start_row\<close> ones, and \<open>diff\<close> of them is what \<^verbatim>\<open>write_new_lines\<close> keeps.
\<close>

definition delta_body :: "nat \<Rightarrow> string \<Rightarrow> string \<Rightarrow> string list" where
  "delta_body n last_text new_text =
     (let new_lines = drop n (readlines new_text);
          last_lines = drop n (readlines last_text)
      in diff last_lines new_lines)"

text \<open>
  The loop of \<^verbatim>\<open>remove_dup_lines\<close> (lines 210-215): \<open>lines_seen\<close> is the set of the
  lines written so far, the result is the sequence of the lines written.
\<close>

fun dedup_loop :: "string set \<Rightarrow> string list \<Rightarrow> string list" where
  "dedup_loop lines_seen [] = []"
| "dedup_loop lines_seen (line # rest) =
     (if line \<notin> lines_seen then line # dedup_loop (insert line lines_seen) rest
      else dedup_loop lines_seen rest)"

definition dedup :: "string list \<Rightarrow> string list" where
  "dedup ls = dedup_loop {} ls"

section \<open>Global variables (lines 40-64)\<close>

definition code_dict :: "string \<rightharpoonup> string" where
  "code_dict = [''PREC'' \<mapsto> ''PC'', ''TOBS'' \<mapsto> ''TA'', ''WTEQ'' \<mapsto> ''SW'', ''SNWD'' \<mapsto> ''SD'']"

definition type_source :: string where
  "type_source = ''RB''"

definition product_id :: string where
  "product_id = ''snotelWeb''"

definition max_call_ids :: int where
  "max_call_ids = 95"

text \<open>The directories of the branch for \<^verbatim>\<open>os.name != 'nt'\<close> (lines 54-57).\<close>

definition out_dir :: string where
  "out_dir = ''/data/Incoming''"

definition log_dir :: string where
  "log_dir = ''/data/ldad/logs''"

definition out_fn_pre :: string where
  "out_fn_pre = ''snotel_scraped_''"

definition new_fn_pre :: string where
  "new_fn_pre = ''new_snotel_''"

definition last_fn_pre :: string where
  "last_fn_pre = ''last_snotel_''"

text \<open>
  \<^verbatim>\<open>os.path.join(dir, fn)\<close> on a directory without trailing separator (a
  \<^verbatim>\<open>pathlib.Path\<close> drops it): a file name that starts with the separator replaces
  the directory.
\<close>

definition path_join :: "string \<Rightarrow> string \<Rightarrow> string" where
  "path_join dir fn = (if fn \<noteq> [] \<and> hd fn = CHR ''/'' then fn else dir @ ''/'' @ fn)"

section \<open>Time stamps\<close>

text \<open>
  A time stamp is the number of nanoseconds since 1970-01-01 00:00, the representation of
  pandas' \<^verbatim>\<open>datetime64[ns]\<close>; a time difference is a number of nanoseconds. Both
  live in the signed 64-bit range without its least value (which is \<^verbatim>\<open>NaT\<close>);
  pandas raises instead of wrapping around.
\<close>

definition ns_per_second :: int where
  "ns_per_second = 1000000000"

definition ns_per_minute :: int where
  "ns_per_minute = 60 * ns_per_second"

definition ns_per_hour :: int where
  "ns_per_hour = 60 * ns_per_minute"

definition ns_per_day :: int where
  "ns_per_day = 24 * ns_per_hour"

definition in_ns_range :: "int \<Rightarrow> bool" where
  "in_ns_range t = (- (2 ^ 63) < t \<and> t < 2 ^ 63)"

text \<open>
  Line 255, on one row:
  \<^verbatim>\<open>pd.to_datetime(date) - pd.to_timedelta(dataTimeZone, 'h')\<close>.
  The offset is a whole number of hours.
\<close>

definition to_utc :: "int \<Rightarrow> int \<Rightarrow> error + int" where
  "to_utc date dataTimeZone =
     (let td = dataTimeZone * ns_per_hour;
          utcTime = date - td
      in if in_ns_range td \<and> in_ns_range utcTime then Inr utcTime else Inl OutOfBoundsDatetime)"

text \<open>
  The proleptic Gregorian date (year, month, day) of a number of days since 1970-01-01,
  which \<^verbatim>\<open>strftime\<close> renders.
\<close>

definition civil_from_days :: "int \<Rightarrow> int \<times> int \<times> int" where
  "civil_from_days days =
     (let z = days + 719468;
          era = z div 146097;
          doe = z mod 146097;
          yoe = (doe - doe div 1460 + doe div 36524 - doe div 146096) div 365;
          doy = doe - (365 * yoe + yoe div 4 - yoe div 100);
          mp = (5 * doy + 2) div 153;
          d = doy - (153 * mp + 2) div 5 + 1;
          m = (if mp < 10 then mp + 3 else mp - 9);
          y = yoe + era * 400 + (if m \<le> 2 then 1 else 0)
      in (y, m, d))"

definition digit :: "nat \<Rightarrow> char" where
  "digit n = ''0123456789'' ! (n mod 10)"

text \<open>Zero-padded decimal of two and of four places, as \<^verbatim>\<open>%m\<close> and \<^verbatim>\<open>%Y\<close> print.\<close>

definition dec2 :: "int \<Rightarrow> string" where
  "dec2 n = [digit (nat n div 10), digit (nat n)]"

definition dec4 :: "int \<Rightarrow> string" where
  "dec4 n = [digit (nat n div 1000), digit (nat n div 100), digit (nat n div 10), digit (nat n)]"

definition strftime_Ymd :: "int \<Rightarrow> string" where
  "strftime_Ymd t = (case civil_from_days (t div ns_per_day) of (y, m, d) \<Rightarrow> dec4 y @ dec2 m @ dec2 d)"

definition strftime_d :: "int \<Rightarrow> string" where
  "strftime_d t = (case civil_from_days (t div ns_per_day) of (y, m, d) \<Rightarrow> dec2 d)"

definition strftime_HM :: "int \<Rightarrow> string" where
  "strftime_HM t = dec2 (t mod ns_per_day div ns_per_hour) @ dec2 (t mod ns_per_hour div ns_per_minute)"

definition strftime_S :: "int \<Rightarrow> string" where
  "strftime_S t = dec2 (t mod ns_per_minute div ns_per_second)"

section \<open>Rows of the data frames\<close>

text \<open>
  A row of \<open>gages_df\<close> (lines 133-138). \<open>date\<close> is the station-local time stamp the
  service sent, already parsed; \<open>value\<close> is the reading in the decimal text that
  \<^verbatim>\<open>astype(str)\<close> gives it; \<open>PE\<close> is \<^verbatim>\<open>code_dict.get(elementCode)\<close>, unset for
  a code outside the table.
\<close>

record data_row =
  date :: int
  "value" :: string
  elementCode :: string
  stationTriplet :: string
  PE :: "string option"

text \<open>A row of \<open>meta_df\<close> (line 151).\<close>

record meta_row =
  meta_stationTriplet :: string
  meta_dataTimeZone :: int
  meta_shefId :: string

text \<open>A row of \<open>combined_df\<close> (lines 253-255), of which \<open>final_df\<close> is a column view.\<close>

record combined_row = data_row +
  dataTimeZone :: int
  shefId :: string
  utcTime :: int

text \<open>A row of the reference table \<open>snotel_meta_df\<close>; \<open>StationId\<close> after \<^verbatim>\<open>astype(str)\<close>.\<close>

record ref_row =
  StationId :: string
  StateCode :: string
  ShefId :: string

text \<open>The decoded JSON of the data service: per station, per element, the values.\<close>

record value_json =
  json_date :: int
  json_value :: string

record element_json =
  json_elementCode :: string
  json_values :: "value_json list"

record station_json =
  json_stationTriplet :: string
  json_data :: "element_json list"

section \<open>MessageEncoder: the bulletin line (lines 272-291)\<close>

definition shef_dur :: "string \<Rightarrow> string" where
  "shef_dur duration = (if duration = ''HOURLY'' then ''I'' else ''D'')"

text \<open>
  One element of \<open>out_lines\<close> (lines 287-289). String concatenation of the columns gives
  a missing value (NaN, here \<open>None\<close>) on a row whose \<open>PE\<close> is unset.
\<close>

definition out_line :: "string \<Rightarrow> combined_row \<Rightarrow> string option" where
  "out_line duration r =
     (case PE r of
        None \<Rightarrow> None
      | Some pe \<Rightarrow>
          Some (''.AR '' @ shefId r @ '' ''
                @ strftime_Ymd (utcTime r) @ '' Z DH'' @ strftime_HM (utcTime r)
                @ ''/DUE /'' @ pe @ shef_dur duration @ type_source @ ''ZZ '' @ value r))"

definition out_lines :: "string \<Rightarrow> combined_row list \<Rightarrow> string option list" where
  "out_lines duration final_df = map (out_line duration) final_df"

text \<open>\<^verbatim>\<open>sep.join(items)\<close> on strings.\<close>

fun join :: "string \<Rightarrow> string list \<Rightarrow> string" where
  "join sep [] = []"
| "join sep [x] = x"
| "join sep (x # y # ys) = x @ sep @ join sep (y # ys)"

text \<open>
  \<^verbatim>\<open>"\n".join(out_lines)\<close> (line 291): \<^verbatim>\<open>str.join\<close> raises TypeError on an item that
  is not a string, which a missing value is.
\<close>

definition join_out_lines :: "string option list \<Rightarrow> error + string" where
  "join_out_lines ls =
     (if None \<in> set ls then Inl TypeError else Inr (join [NL] (map the ls)))"

section \<open>The state of a run\<close>

text \<open>
  The file system maps a path to the text of the file there, the log is the sequence of
  the messages given to \<^verbatim>\<open>logging.info\<close>, and \<open>calls\<close> is the sequence of the
  requests sent to the remote service, each with its request parameters.
\<close>

datatype call =
    DataCall "string list" string string string
  | MetaCall "string list"

record state =
  files :: "string \<rightharpoonup> string"
  log :: "string list"
  calls :: "call list"

text \<open>
  What a run reads from outside: the reference table, the answers of the two endpoints
  of the service (\<open>Inl\<close> when \<^verbatim>\<open>requests.get\<close> or \<^verbatim>\<open>response.json()\<close> raise), the
  clock, and pandas' rendering of a frame as csv text (rows and the added duration
  column), which is not code of this program.
\<close>

record world =
  snotel_meta_df :: "ref_row list"
  data_service :: "string list \<Rightarrow> string \<Rightarrow> string \<Rightarrow> string \<Rightarrow> error + station_json list"
  meta_service :: "string list \<Rightarrow> error + meta_row list"
  utc_now :: int
  to_csv :: "combined_row list \<Rightarrow> string \<Rightarrow> string"

text \<open>The result of \<^verbatim>\<open>parse_args\<close>; \<open>back\<close> as \<^verbatim>\<open>str(back)\<close>.\<close>

record args =
  locid :: string
  params :: string
  duration :: string
  "back" :: string

text \<open>Sequencing of two steps: an exception of the first one ends the computation.\<close>

definition bind ::
  "(error + 'a) \<times> state \<Rightarrow> ('a \<Rightarrow> state \<Rightarrow> (error + 'b) \<times> state) \<Rightarrow> (error + 'b) \<times> state" where
  "bind m f = (case m of (Inl e, st) \<Rightarrow> (Inl e, st) | (Inr x, st) \<Rightarrow> f x st)"

definition logging_info :: "string \<Rightarrow> state \<Rightarrow> state" where
  "logging_info msg st = st\<lparr>log := log st @ [msg]\<rparr>"

definition isfile :: "string \<Rightarrow> state \<Rightarrow> bool" where
  "isfile path st = (files st path \<noteq> None)"

definition write_file :: "string \<Rightarrow> string \<Rightarrow> state \<Rightarrow> state" where
  "write_file path text st = st\<lparr>files := (files st)(path \<mapsto> text)\<rparr>"

text \<open>\<^verbatim>\<open>open(path, 'a')\<close> followed by writes: the file is created when it is missing.\<close>

definition append_file :: "string \<Rightarrow> string \<Rightarrow> state \<Rightarrow> state" where
  "append_file path text st =
     write_file path ((case files st path of None \<Rightarrow> [] | Some old \<Rightarrow> old) @ text) st"

definition os_remove :: "string \<Rightarrow> state \<Rightarrow> (error + unit) \<times> state" where
  "os_remove path st =
     (case files st path of
        None \<Rightarrow> (Inl (FileNotFoundError path), st)
      | Some _ \<Rightarrow> (Inr (), st\<lparr>files := (files st)(path := None)\<rparr>))"

definition copyfile :: "string \<Rightarrow> string \<Rightarrow> state \<Rightarrow> (error + unit) \<times> state" where
  "copyfile src dst st =
     (if src = dst then (Inl SameFileError, st)
      else case files st src of
             None \<Rightarrow> (Inl (FileNotFoundError src), st)
           | Some text \<Rightarrow> (Inr (), write_file dst text st))"

section \<open>The file operations of the program\<close>

text \<open>
  \<^verbatim>\<open>write_header\<close> (lines 182-200). The file is opened for writing first, so it exists
  and is empty whatever the format is.
\<close>

definition write_header ::
  "int \<Rightarrow> string \<Rightarrow> string \<Rightarrow> string list option \<Rightarrow> state \<Rightarrow> (error + unit) \<times> state" where
  "write_header now out_fullfn out_fmt header st =
     (let st1 = write_file out_fullfn [] st
      in if out_fmt = ''shef'' then
           (Inr (), write_file out_fullfn
                      (''TTAA00 KPTR '' @ strftime_d now @ strftime_HM now @ [NL]
                       @ product_id @ [NL]) st1)
         else if out_fmt = ''csv'' then
           (case header of
              None \<Rightarrow> (Inl TypeError, st1)
            | Some cols \<Rightarrow> (Inr (), write_file out_fullfn (join '','' cols @ [NL]) st1))
         else (Inr (), st1))"

text \<open>
  \<^verbatim>\<open>write_new_lines\<close> (lines 154-180). \<open>start_row\<close> is read at line 166, after the new
  file was opened; for a format that is neither csv nor shef it was never assigned.
\<close>

definition write_new_lines ::
  "string \<Rightarrow> string \<Rightarrow> string \<Rightarrow> string \<Rightarrow> state \<Rightarrow> (error + unit) \<times> state" where
  "write_new_lines last_fullfn new_fullfn out_fullfn out_fmt st =
     (case files st new_fullfn of
        None \<Rightarrow> (Inl (FileNotFoundError new_fullfn), st)
      | Some new_text \<Rightarrow>
     (case start_row out_fmt of
        None \<Rightarrow> (Inl (UnboundLocalError ''start_row''), st)
      | Some n \<Rightarrow>
     (case files st last_fullfn of
        None \<Rightarrow> (Inl (FileNotFoundError last_fullfn), st)
      | Some last_text \<Rightarrow>
          (let kept = delta_body n last_text new_text
           in if length kept > 1 then (Inr (), append_file out_fullfn (concat kept) st)
              else os_remove out_fullfn
                     (logging_info (''no new lines of data observed, deleting '' @ out_fullfn) st)))))"

text \<open>\<^verbatim>\<open>remove_dup_lines\<close> (lines 202-218).\<close>

definition remove_dup_lines :: "string \<Rightarrow> state \<Rightarrow> (error + unit) \<times> state" where
  "remove_dup_lines out_fullfn st =
     bind (copyfile out_fullfn (out_fullfn @ ''.tmp'') st) (\<lambda>_ st1.
       (case files st1 (out_fullfn @ ''.tmp'') of
          None \<Rightarrow> (Inl (FileNotFoundError (out_fullfn @ ''.tmp'')), st1)
        | Some tmp_text \<Rightarrow>
            os_remove (out_fullfn @ ''.tmp'')
              (write_file out_fullfn (concat (dedup (readlines tmp_text))) st1)))"

section \<open>Fetching (lines 116-152)\<close>

text \<open>\<^verbatim>\<open>pd.concat\<close> of a list of frames: ValueError when there is nothing to concatenate.\<close>

definition pd_concat :: "'a list list \<Rightarrow> error + 'a list" where
  "pd_concat frames = (if frames = [] then Inl ValueError else Inr (concat frames))"

text \<open>
  The \<open>gage_df\<close> of one station (lines 133-134) with the \<open>PE\<close> column of line 138: one
  row per value of every element.
\<close>

definition gage_df :: "station_json \<Rightarrow> data_row list" where
  "gage_df json_str =
     concat (map (\<lambda>e. map (\<lambda>v. \<lparr>date = json_date v, value = json_value v,
                                  elementCode = json_elementCode e,
                                  stationTriplet = json_stationTriplet json_str,
                                  PE = code_dict (json_elementCode e)\<rparr>)
                           (json_values e))
                 (json_data json_str))"

text \<open>
  \<^verbatim>\<open>get_data\<close> (lines 116-140). The column \<open>stationElement.elementCode\<close> that line
  138 reads exists only when some station of the answer has an element: reading it from
  the frame of stations without any element raises KeyError.
\<close>

definition get_data ::
  "world \<Rightarrow> string list \<Rightarrow> string \<Rightarrow> string \<Rightarrow> string \<Rightarrow> state \<Rightarrow> (error + data_row list) \<times> state" where
  "get_data w triplet_str params_str dur bck st =
     (let st1 = st\<lparr>calls := calls st @ [DataCall triplet_str params_str dur (''-'' @ bck)]\<rparr>
      in case data_service w triplet_str params_str dur (''-'' @ bck) of
           Inl e \<Rightarrow> (Inl e, st1)
         | Inr json_strings \<Rightarrow>
             (case pd_concat (map gage_df json_strings) of
                Inl e \<Rightarrow> (Inl e, st1)
              | Inr gages_df \<Rightarrow>
                  (if concat (map json_data json_strings) = [] then (Inl KeyError, st1)
                   else (Inr gages_df, st1))))"

text \<open>
  \<^verbatim>\<open>get_meta\<close>: selecting the three columns of a frame built from no object at all
  raises KeyError.
\<close>

definition get_meta :: "world \<Rightarrow> string list \<Rightarrow> state \<Rightarrow> (error + meta_row list) \<times> state" where
  "get_meta w triplet_str st =
     (let st1 = st\<lparr>calls := calls st @ [MetaCall triplet_str]\<rparr>
      in case meta_service w triplet_str of
           Inl e \<Rightarrow> (Inl e, st1)
         | Inr json_strings \<Rightarrow>
             (if json_strings = [] then (Inl KeyError, st1) else (Inr json_strings, st1)))"

text \<open>Lines 232 and 242: the triplets of the rows of a part of the reference table.\<close>

definition triplet_str :: "ref_row list \<Rightarrow> string list" where
  "triplet_str subset_df = map (\<lambda>r. StationId r @ '':'' @ StateCode r @ '':SNTL'') subset_df"

text \<open>The body of the loop of lines 230-236, over the batches in their order.\<close>

fun fetch_all ::
  "world \<Rightarrow> args \<Rightarrow> ref_row list list \<Rightarrow> state
   \<Rightarrow> (error + data_row list list \<times> meta_row list list) \<times> state" where
  "fetch_all w arg_vals [] st = (Inr ([], []), st)"
| "fetch_all w arg_vals (subset_df # rest) st =
     (case get_data w (triplet_str subset_df) (params arg_vals) (duration arg_vals) (back arg_vals) st of
        (Inl e, st1) \<Rightarrow> (Inl e, st1)
      | (Inr call_data_df, st1) \<Rightarrow>
     (case get_meta w (triplet_str subset_df) st1 of
        (Inl e, st2) \<Rightarrow> (Inl e, st2)
      | (Inr call_meta_df, st2) \<Rightarrow>
     (case fetch_all w arg_vals rest st2 of
        (Inl e, st3) \<Rightarrow> (Inl e, st3)
      | (Inr (data_li, meta_li), st3) \<Rightarrow>
          (Inr (call_data_df # data_li, call_meta_df # meta_li), st3))))"

text \<open>
  Lines 227-246. The result is the pair of the local variables \<open>all_data_df\<close> and
  \<open>all_meta_df\<close>, \<open>None\<close> for a variable that no assignment reached: in the branch of a
  single station every exception is caught and logged, and the variables assigned
  before it keep their values.
\<close>

definition acquire ::
  "world \<Rightarrow> int \<Rightarrow> args \<Rightarrow> state
   \<Rightarrow> (error + data_row list option \<times> meta_row list option) \<times> state" where
  "acquire w limit arg_vals st =
     (if locid arg_vals = ''all'' then
        (case batches limit (snotel_meta_df w) of
           Inl e \<Rightarrow> (Inl e, st)
         | Inr subsets \<Rightarrow>
             bind (fetch_all w arg_vals subsets st) (\<lambda>(data_li, meta_li) st1.
               (case pd_concat data_li of
                  Inl e \<Rightarrow> (Inl e, st1)
                | Inr all_data_df \<Rightarrow>
                    (case pd_concat meta_li of
                       Inl e \<Rightarrow> (Inl e, st1)
                     | Inr all_meta_df \<Rightarrow> (Inr (Some all_data_df, Some all_meta_df), st1)))))
      else
        (let row_info = filter (\<lambda>r. ShefId r = locid arg_vals) (snotel_meta_df w)
         in case get_data w (triplet_str row_info) (params arg_vals) (duration arg_vals) (back arg_vals) st of
              (Inl e, st1) \<Rightarrow>
                (Inr (None, None), logging_info ''improper character length for LID'' st1)
            | (Inr all_data_df, st1) \<Rightarrow>
                (case get_meta w (triplet_str row_info) st1 of
                   (Inl e, st2) \<Rightarrow>
                     (Inr (Some all_data_df, None),
                      logging_info ''improper character length for LID'' st2)
                 | (Inr all_meta_df, st2) \<Rightarrow> (Inr (Some all_data_df, Some all_meta_df), st2))))"

section \<open>RecordJoiner and TimeNormalizer (lines 253-257)\<close>

text \<open>
  \<^verbatim>\<open>all_data_df.merge(all_meta_df)\<close>: the inner join on the one common column,
  \<open>stationTriplet\<close>, in the order of the rows of the left frame.
\<close>

definition merge :: "data_row list \<Rightarrow> meta_row list \<Rightarrow> (data_row \<times> meta_row) list" where
  "merge all_data_df all_meta_df =
     concat (map (\<lambda>d. map (Pair d)
                         (filter (\<lambda>m. meta_stationTriplet m = stationTriplet d) all_meta_df))
                 all_data_df)"

text \<open>Line 255 on the whole column: one row out of range raises for the frame.\<close>

fun add_utcTime :: "(data_row \<times> meta_row) list \<Rightarrow> error + combined_row list" where
  "add_utcTime [] = Inr []"
| "add_utcTime ((d, m) # rest) =
     (case to_utc (date d) (meta_dataTimeZone m) of
        Inl e \<Rightarrow> Inl e
      | Inr t \<Rightarrow>
          (case add_utcTime rest of
             Inl e \<Rightarrow> Inl e
           | Inr rows \<Rightarrow>
               Inr (\<lparr>date = date d, value = value d, elementCode = elementCode d,
                     stationTriplet = stationTriplet d, PE = PE d,
                     dataTimeZone = meta_dataTimeZone m, shefId = meta_shefId m,
                     utcTime = t\<rparr> # rows)))"

text \<open>
  Lines 253-257. The joined frame has the column \<open>date\<close> only when at least one reading
  was fetched: reading it at line 255 from a frame built of no reading raises KeyError.
\<close>

definition join_frames :: "data_row list \<Rightarrow> meta_row list \<Rightarrow> error + combined_row list" where
  "join_frames all_data_df all_meta_df =
     (if all_data_df = [] then Inl KeyError else add_utcTime (merge all_data_df all_meta_df))"

section \<open>Writing the snapshot and publishing (lines 259-308)\<close>

definition out_fmt :: string where
  "out_fmt = ''shef''"

definition fn_time_str :: "int \<Rightarrow> string" where
  "fn_time_str now = strftime_Ymd now @ ''_'' @ strftime_HM now @ strftime_S now"

definition new_fullfn :: "string \<Rightarrow> string \<Rightarrow> string" where
  "new_fullfn dur fmt = path_join log_dir (new_fn_pre @ dur @ ''.'' @ fmt)"

definition last_fullfn :: "string \<Rightarrow> string \<Rightarrow> string" where
  "last_fullfn dur fmt = path_join log_dir (last_fn_pre @ dur @ ''.'' @ fmt)"

definition final_out_fullfn :: "int \<Rightarrow> string \<Rightarrow> string \<Rightarrow> string" where
  "final_out_fullfn now dur fmt =
     path_join out_dir (out_fn_pre @ dur @ ''.'' @ fn_time_str now @ ''.'' @ fmt)"

definition csv_headers :: "string list" where
  "csv_headers = [''shefId'', ''utcTime'', ''PE'', ''value'', ''duration'']"

text \<open>Lines 277-291: the new snapshot. Every format but csv takes the bulletin branch.\<close>

definition write_snapshot ::
  "world \<Rightarrow> string \<Rightarrow> string \<Rightarrow> combined_row list \<Rightarrow> state \<Rightarrow> (error + unit) \<times> state" where
  "write_snapshot w fmt dur final_df st =
     (if fmt = ''csv'' then
        (Inr (), write_file (new_fullfn dur fmt) (to_csv w final_df dur) st)
      else
        bind (write_header (utc_now w) (new_fullfn dur fmt) fmt None st) (\<lambda>_ st1.
          (case join_out_lines (out_lines dur final_df) of
             Inl e \<Rightarrow> (Inl e, st1)
           | Inr text \<Rightarrow> (Inr (), append_file (new_fullfn dur fmt) text st1))))"

text \<open>Lines 293-300: the delta against the last snapshot, or the whole snapshot.\<close>

definition publish :: "world \<Rightarrow> string \<Rightarrow> string \<Rightarrow> state \<Rightarrow> (error + unit) \<times> state" where
  "publish w fmt dur st =
     (let final = final_out_fullfn (utc_now w) dur fmt
      in if isfile (last_fullfn dur fmt) st then
           bind (if fmt = ''csv'' then write_header (utc_now w) final fmt (Some csv_headers) st
                 else (Inr (), st)) (\<lambda>_ st1.
           bind (if fmt = ''shef'' then write_header (utc_now w) final fmt None st1
                 else (Inr (), st1)) (\<lambda>_ st2.
           write_new_lines (last_fullfn dur fmt) (new_fullfn dur fmt) final fmt st2))
         else copyfile (new_fullfn dur fmt) final st)"

text \<open>Lines 302-308.\<close>

definition finish :: "world \<Rightarrow> string \<Rightarrow> string \<Rightarrow> state \<Rightarrow> (error + unit) \<times> state" where
  "finish w fmt dur st =
     (let final = final_out_fullfn (utc_now w) dur fmt
      in bind (if isfile final st then remove_dup_lines final st else (Inr (), st)) (\<lambda>_ st1.
         bind (copyfile (new_fullfn dur fmt) (last_fullfn dur fmt) st1) (\<lambda>_ st2.
           (Inr (),
            logging_info (''equivalent final output found in last file: '' @ last_fullfn dur fmt)
              (logging_info (''nrcs scraping complete with output to: '' @ final) st2)))))"

text \<open>Lines 293-308: everything after the new snapshot was written.\<close>

definition deliver :: "world \<Rightarrow> string \<Rightarrow> string \<Rightarrow> state \<Rightarrow> (error + unit) \<times> state" where
  "deliver w fmt dur st = bind (publish w fmt dur st) (\<lambda>_ st1. finish w fmt dur st1)"

definition emit ::
  "world \<Rightarrow> string \<Rightarrow> string \<Rightarrow> combined_row list \<Rightarrow> state \<Rightarrow> (error + unit) \<times> state" where
  "emit w fmt dur final_df st =
     bind (write_snapshot w fmt dur final_df st) (\<lambda>_ st1. deliver w fmt dur st1)"

section \<open>The run (lines 220-308)\<close>

text \<open>
  \<^verbatim>\<open>main\<close>, with the two global variables that the claims vary, the output format
  and the batch limit, as parameters; the program as it stands is \<open>run\<close>. Reading the
  variable \<open>all_data_df\<close> or \<open>all_meta_df\<close> at line 253 raises when no assignment
  reached it; lines 253-257 are \<open>join_frames\<close>.
\<close>

definition main :: "world \<Rightarrow> string \<Rightarrow> int \<Rightarrow> args \<Rightarrow> state \<Rightarrow> (error + unit) \<times> state" where
  "main w fmt limit arg_vals st =
     bind (acquire w limit arg_vals (logging_info ''scraping started'' st))
       (\<lambda>(all_data_df, all_meta_df) st1.
          (let st2 = logging_info ''scraping completed'' st1
           in case all_data_df of
                None \<Rightarrow> (Inl (UnboundLocalError ''all_data_df''), st2)
              | Some data \<Rightarrow>
                  (case all_meta_df of
                     None \<Rightarrow> (Inl (UnboundLocalError ''all_meta_df''), st2)
                   | Some meta \<Rightarrow>
                       (case join_frames data meta of
                          Inl e \<Rightarrow> (Inl e, st2)
                        | Inr final_df \<Rightarrow> emit w fmt (duration arg_vals) final_df st2))))"

definition run :: "world \<Rightarrow> args \<Rightarrow> state \<Rightarrow> (error + unit) \<times> state" where
  "run w arg_vals st = main w out_fmt max_call_ids arg_vals st"

section \<open>A sample station\<close>

text \<open>
  Concrete inputs for the runs evaluated below: a reference table with the one station
  CLJW1, a service that answers a request for at least one triplet with the given values
  of one element of that station and fails on a request for none, the station's time
  zone eight hours behind UTC, and the clock of the run.
\<close>

definition sample_world :: "string \<Rightarrow> (int \<times> string) list \<Rightarrow> int \<Rightarrow> world" where
  "sample_world code vals now =
     \<lparr>snotel_meta_df = [\<lparr>StationId = ''679'', StateCode = ''WA'', ShefId = ''CLJW1''\<rparr>],
      data_service = (\<lambda>tr p d b.
         if tr = [] then Inl RequestError
         else Inr [\<lparr>json_stationTriplet = ''679:WA:SNTL'',
                    json_data = [\<lparr>json_elementCode = code,
                                  json_values = map (\<lambda>(t, v). \<lparr>json_date = t, json_value = v\<rparr>) vals\<rparr>]\<rparr>]),
      meta_service = (\<lambda>tr.
         if tr = [] then Inl RequestError
         else Inr [\<lparr>meta_stationTriplet = ''679:WA:SNTL'', meta_dataTimeZone = - 8,
                    meta_shefId = ''CLJW1''\<rparr>]),
      utc_now = now,
      to_csv = (\<lambda>rows d. [])\<rparr>"

definition sample_args :: "string \<Rightarrow> args" where
  "sample_args l = \<lparr>locid = l, params = ''WTEQ'', duration = ''HOURLY'', back = ''3''\<rparr>"

text \<open>The state before the first run: no file, nothing logged, no request sent.\<close>

definition fresh :: state where
  "fresh = \<lparr>files = Map.empty, log = [], calls = []\<rparr>"

text \<open>
  Four readings of the station, one per hour from 05:00 to 08:00 local time on
  2024-11-01 (13:00 to 16:00 UTC), and the bulletin lines that encode them.
\<close>

definition reading_0500 :: "int \<times> string" where
  "reading_0500 = (1730437200000000000, ''12.3'')"

definition reading_0600 :: "int \<times> string" where
  "reading_0600 = (1730440800000000000, ''12.4'')"

definition reading_0700 :: "int \<times> string" where
  "reading_0700 = (1730444400000000000, ''12.5'')"

definition reading_0800 :: "int \<times> string" where
  "reading_0800 = (1730448000000000000, ''12.6'')"

definition line_1300 :: string where
  "line_1300 = ''.AR CLJW1 20241101 Z DH1300/DUE /SWIRBZZ 12.3''"

definition line_1400 :: string where
  "line_1400 = ''.AR CLJW1 20241101 Z DH1400/DUE /SWIRBZZ 12.4''"

definition line_1500 :: string where
  "line_1500 = ''.AR CLJW1 20241101 Z DH1500/DUE /SWIRBZZ 12.5''"

definition line_1600 :: string where
  "line_1600 = ''.AR CLJW1 20241101 Z DH1600/DUE /SWIRBZZ 12.6''"


text \<open>
  Runs at 16:05:07, 17:05:07 and 18:05:07 UTC. The service answers \<open>world_a\<close> with the
  readings of 05:00, 06:00 and 08:00, \<open>world_p\<close> with those of 05:00 and 06:00,
  \<open>world_c\<close> with all four, and \<open>world_d\<close> with those of 05:00 and 06:00, the last
  one twice.
\<close>

definition world_a :: world where
  "world_a = sample_world ''WTEQ'' [reading_0500, reading_0600, reading_0800] 1730477107000000000"

definition world_p :: world where
  "world_p = sample_world ''WTEQ'' [reading_0500, reading_0600] 1730480707000000000"

definition world_c :: world where
  "world_c = sample_world ''WTEQ'' [reading_0500, reading_0600, reading_0700, reading_0800]
               1730484307000000000"

definition world_d :: world where
  "world_d = sample_world ''WTEQ'' [reading_0500, reading_0600, reading_0600] 1730477107000000000"

text \<open>The snapshots that the runs in these worlds write.\<close>

definition snap_p :: string where
  "snap_p = ''TTAA00 KPTR 011705'' @ [NL] @ ''snotelWeb'' @ [NL] @ line_1300 @ [NL] @ line_1400"

definition snap_c :: string where
  "snap_c = ''TTAA00 KPTR 011805'' @ [NL] @ ''snotelWeb'' @ [NL]
            @ line_1300 @ [NL] @ line_1400 @ [NL] @ line_1500 @ [NL] @ line_1600"

definition snap_d :: string where
  "snap_d = ''TTAA00 KPTR 011605'' @ [NL] @ ''snotelWeb'' @ [NL]
            @ line_1300 @ [NL] @ line_1400 @ [NL] @ line_1400"

text \<open>
  What the differ keeps of \<open>snap_c\<close> against the baseline \<open>snap_p\<close>, and the lines of
  the delta file published then.
\<close>

definition kept_q :: "string list" where
  "kept_q = [line_1400 @ [NL], line_1500 @ [NL], line_1600]"

definition published_q :: "string list" where
  "published_q = [''TTAA00 KPTR 011805'' @ [NL], ''snotelWeb'' @ [NL],
                  line_1400 @ [NL], line_1500 @ [NL], line_1600]"

text \<open>
  Two baselines left by an earlier run: one with the lines of 13:00 and 16:00, one with
  the line of 13:00 and the first reading of 14:00.
\<close>

definition baseline_text :: string where
  "baseline_text = ''TTAA00 KPTR 011505'' @ [NL] @ ''snotelWeb'' @ [NL]
                   @ line_1300 @ [NL] @ line_1600"

definition baseline_state :: state where
  "baseline_state = \<lparr>files = [last_fullfn ''HOURLY'' ''shef'' \<mapsto> baseline_text], log = [], calls = []\<rparr>"



text \<open>
  The states after a first run in \<open>world_p\<close> and a second one in \<open>world_c\<close>, starting
  without any file (\<open>state_p\<close>, \<open>state_q\<close>) and starting from the earlier baseline
  (\<open>state_s\<close>, \<open>state_t\<close>); and the state after a first run in \<open>world_d\<close>.
\<close>

definition state_p :: state where
  "state_p = snd (run world_p (sample_args ''all'') fresh)"

definition state_q :: state where
  "state_q = snd (run world_c (sample_args ''all'') state_p)"



definition state_d :: state where
  "state_d = snd (run world_d (sample_args ''all'') fresh)"

text \<open>A file of the lines a, b, a, c, b, written as the program writes lines.\<close>

definition abacb_text :: string where
  "abacb_text = [CHR ''a'', NL, CHR ''b'', NL, CHR ''a'', NL, CHR ''c'', NL, CHR ''b'']"

definition abacb_state :: state where
  "abacb_state = \<lparr>files = [''f'' \<mapsto> abacb_text], log = [], calls = []\<rparr>"

section \<open>Auxiliary notions for the proofs\<close>

text \<open>
  The shape of what \<open>readlines\<close> returns: no line is empty, a newline occurs only as
  the last character of a line, and every line but the last one ends with it.
\<close>

fun line_seq :: "string list \<Rightarrow> bool" where
  "line_seq [] = True"
| "line_seq [l] = (l \<noteq> [] \<and> NL \<notin> set (butlast l))"
| "line_seq (l # k # ls) =
     (l \<noteq> [] \<and> NL \<notin> set (butlast l) \<and> last l = NL \<and> line_seq (k # ls))"

text \<open>
  The header that \<^verbatim>\<open>write_header\<close> writes to the delta file in \<^verbatim>\<open>main\<close>, for
  the bulletin format and for the tabular one.
\<close>

definition delta_header :: "int \<Rightarrow> string \<Rightarrow> string" where
  "delta_header now fmt =
     (if fmt = ''shef'' then ''TTAA00 KPTR '' @ strftime_d now @ strftime_HM now @ [NL] @ product_id @ [NL]
      else join '','' csv_headers @ [NL])"

text \<open>
  The text of the new snapshot that lines 277-291 write for a frame, or the exception of
  \<^verbatim>\<open>join\<close>: for every format but csv the header of \<^verbatim>\<open>write_header\<close> (none for a
  format that is neither csv nor shef) followed by the joined lines.
\<close>

definition snapshot_text :: "world \<Rightarrow> string \<Rightarrow> string \<Rightarrow> combined_row list \<Rightarrow> error + string" where
  "snapshot_text w f dur final_df =
     (if f = ''csv'' then Inr (to_csv w final_df dur)
      else case join_out_lines (out_lines dur final_df) of
             Inl e \<Rightarrow> Inl e
           | Inr body \<Rightarrow> Inr ((if f = ''shef'' then delta_header (utc_now w) f else []) @ body))"

text \<open>
  The frame \<open>final_df\<close> of a run (lines 227-257), or the exception that ends the run
  before line 259; it depends on the world and the arguments only.
\<close>

definition run_frame :: "world \<Rightarrow> int \<Rightarrow> args \<Rightarrow> error + combined_row list" where
  "run_frame w l a =
     (case fst (acquire w l a fresh) of
        Inl e \<Rightarrow> Inl e
      | Inr (all_data_df, all_meta_df) \<Rightarrow>
          (case all_data_df of
             None \<Rightarrow> Inl (UnboundLocalError ''all_data_df'')
           | Some data \<Rightarrow>
               (case all_meta_df of
                  None \<Rightarrow> Inl (UnboundLocalError ''all_meta_df'')
                | Some meta \<Rightarrow> join_frames data meta)))"

text \<open>
  The text of the snapshot that a run writes, as far as it depends on the world and the
  arguments only: fetching, joining and encoding do not read the state.
\<close>

definition run_snapshot :: "world \<Rightarrow> string \<Rightarrow> int \<Rightarrow> args \<Rightarrow> error + string" where
  "run_snapshot w f l a =
     (case run_frame w l a of
        Inl e \<Rightarrow> Inl e
      | Inr final_df \<Rightarrow> snapshot_text w f (duration a) final_df)"

section \<open>Lines and files\<close>

lemma concat_readlines: "concat (readlines s) = s"
  by (induction s) (auto split: list.splits)

lemma line_seq_readlines: "line_seq (readlines s)"
proof (induction s)
  case Nil
  then show ?case by simp
next
  case (Cons c s)
  then show ?case
    by (cases "readlines s"; cases "tl (readlines s)") (auto split: list.splits)
qed

lemma line_seq_tl: "line_seq (l # ls) \<Longrightarrow> line_seq ls"
  by (cases ls) auto

lemma line_seq_hd: "line_seq (l # ls) \<Longrightarrow> l \<noteq> [] \<and> NL \<notin> set (butlast l)"
  by (cases ls) auto

lemma line_seq_Cons:
  "line_seq (l # ls) \<longleftrightarrow> l \<noteq> [] \<and> NL \<notin> set (butlast l) \<and> (ls \<noteq> [] \<longrightarrow> last l = NL) \<and> line_seq ls"
  by (cases ls) auto

lemma line_seq_subseq: "subseq ys xs \<Longrightarrow> line_seq xs \<Longrightarrow> line_seq ys"
proof (induction ys xs rule: list_emb.induct)
  case (list_emb_Nil ys)
  then show ?case by simp
next
  case (list_emb_Cons xs ys y)
  then show ?case by (simp add: line_seq_Cons)
next
  case (list_emb_Cons2 x y xs ys)
  then show ?case by (auto simp: line_seq_Cons)
qed

lemma readlines_no_NL: "NL \<notin> set a \<Longrightarrow> readlines a = (if a = [] then [] else [a])"
  by (induction a) (auto split: list.splits)

lemma readlines_terminated: "NL \<notin> set a \<Longrightarrow> readlines (a @ NL # r) = (a @ [NL]) # readlines r"
  by (induction a) auto

lemma readlines_line: "l \<noteq> [] \<Longrightarrow> NL \<notin> set (butlast l) \<Longrightarrow> readlines l = [l]"
proof (cases "last l = NL")
  case True
  assume "l \<noteq> []" "NL \<notin> set (butlast l)"
  with True have "l = butlast l @ [NL]" by (metis append_butlast_last_id)
  moreover have "readlines (butlast l @ NL # []) = (butlast l @ [NL]) # readlines []"
    using \<open>NL \<notin> set (butlast l)\<close> by (rule readlines_terminated)
  ultimately show ?thesis by simp
next
  case False
  assume "l \<noteq> []" "NL \<notin> set (butlast l)"
  with False have "NL \<notin> set l"
    by (metis append_butlast_last_id set_ConsD rotate1.simps(2) set_rotate1)
  with \<open>l \<noteq> []\<close> show ?thesis by (simp add: readlines_no_NL)
qed

lemma readlines_concat: "line_seq ls \<Longrightarrow> readlines (concat ls) = ls"
proof (induction ls rule: line_seq.induct)
  case 1
  then show ?case by simp
next
  case (2 l)
  then show ?case by (simp add: readlines_line)
next
  case (3 l k ls)
  then have ih: "readlines (concat (k # ls)) = k # ls"
    by simp
  from 3 have "l \<noteq> []" "last l = NL" "NL \<notin> set (butlast l)" by auto
  then obtain a where l: "l = a @ [NL]" and nl: "NL \<notin> set a"
    by (metis append_butlast_last_id)
  have "readlines (a @ NL # concat (k # ls)) = (a @ [NL]) # readlines (concat (k # ls))"
    using nl by (rule readlines_terminated)
  with ih show ?case
    unfolding l by simp
qed

lemma readlines_nonempty: "s \<noteq> [] \<Longrightarrow> readlines s \<noteq> []"
  by (cases s) (auto split: list.splits)

lemma readlines_append:
  "a = [] \<or> last a = NL \<Longrightarrow> readlines (a @ b) = readlines a @ readlines b"
proof (induction a)
  case Nil
  then show ?case by simp
next
  case (Cons c cs)
  show ?case
  proof (cases "cs = []")
    case True
    with Cons.prems show ?thesis by simp
  next
    case False
    with Cons have ih: "readlines (cs @ b) = readlines cs @ readlines b" by simp
    from False obtain l ls where "readlines cs = l # ls"
      using readlines_nonempty by (cases "readlines cs") auto
    with ih show ?thesis by simp
  qed
qed


section \<open>The batcher\<close>

lemma range_step_concat:
  "0 < n \<Longrightarrow> concat (map (\<lambda>i. iloc i (i + n) xs) (range_step k (length xs) n)) = drop k xs"
proof (induction k "length xs" n rule: range_step.induct)
  case (1 i step)
  show ?case
  proof (cases "i < length xs")
    case True
    have "take step (drop i xs) @ drop (i + step) xs = drop i xs"
      by (metis add.commute append_take_drop_id drop_drop)
    with True 1 show ?thesis
      by (subst range_step.simps) (simp add: iloc_def)
  next
    case False
    then show ?thesis by (subst range_step.simps) simp
  qed
qed

lemma range_step_bound: "i \<in> set (range_step k stop n) \<Longrightarrow> i < stop"
proof (induction k stop n rule: range_step.induct)
  case (1 k stop n)
  then show ?case
    by (subst (asm) range_step.simps) (auto split: if_splits)
qed

lemma range_step_Nil: "range_step k 0 n = []"
  by (subst range_step.simps) simp

text \<open>
  Claim C3: for every station list and every positive batch limit, the batches are
  consecutive groups of at most \<open>limit\<close> stations whose concatenation, in order, is the
  list itself; the empty list gives no batch. (No batch is empty either.)
\<close>

theorem batches_partition:
  assumes "0 < limit"
  shows "\<exists>bs. batches limit xs = Inr bs \<and> concat bs = xs
           \<and> (\<forall>b \<in> set bs. length b \<le> nat limit \<and> b \<noteq> [])
           \<and> (xs = [] \<longrightarrow> bs = [])"
proof -
  let ?n = "nat limit"
  let ?bs = "map (\<lambda>i. iloc i (i + ?n) xs) (range_step 0 (length xs) ?n)"
  from assms have n: "0 < ?n" by simp
  have b: "batches limit xs = Inr ?bs"
    using assms by (simp add: batches_def)
  have c: "concat ?bs = xs"
    using range_step_concat [OF n, of xs 0] by simp
  have l: "\<forall>b \<in> set ?bs. length b \<le> ?n \<and> b \<noteq> []"
    using n by (auto simp: iloc_def dest: range_step_bound)
  have e: "xs = [] \<longrightarrow> ?bs = []"
    by (simp add: range_step_Nil)
  from b c l e show ?thesis by blast
qed

theorem batches_partition_witness:
  "(0::int) < 2
   \<and> (\<exists>bs. batches 2 [1, 2, 3, 4, 5 :: nat] = Inr bs \<and> concat bs = [1, 2, 3, 4, 5]
             \<and> (\<forall>b \<in> set bs. length b \<le> 2 \<and> b \<noteq> []))
   \<and> batches 2 [1, 2, 3, 4, 5 :: nat] = Inr [[1, 2], [3, 4], [5]]
   \<and> (\<exists>bs. batches 2 ([] :: nat list) = Inr bs \<and> bs = [])"
proof -
  have h: "(0::int) < 2" by simp
  have "batches 2 [1, 2, 3, 4, 5 :: nat] = Inr [[1, 2], [3, 4], [5]]"
    by (simp add: batches_def iloc_def range_step.simps)
  with h batches_partition [OF h, of "[1, 2, 3, 4, 5 :: nat]"]
       batches_partition [OF h, of "[] :: nat list"]
  show ?thesis by simp
qed

section \<open>The deduplicator\<close>

lemma set_dedup_loop: "set (dedup_loop S xs) = set xs - S"
  by (induction xs arbitrary: S) auto

lemma distinct_dedup_loop: "distinct (dedup_loop S xs)"
  by (induction xs arbitrary: S) (auto simp: set_dedup_loop)

lemma subseq_dedup_loop: "subseq (dedup_loop S xs) xs"
  by (induction xs arbitrary: S) auto

lemma dedup_loop_first:
  "dedup_loop S xs = map (\<lambda>i. xs ! i) (filter (\<lambda>i. xs ! i \<notin> S \<union> set (take i xs)) [0..<length xs])"
proof (induction xs arbitrary: S)
  case Nil
  then show ?case by simp
next
  case (Cons x xs)
  have up: "[0..<length (x # xs)] = 0 # map Suc [0..<length xs]"
    by (simp add: upt_conv_Cons map_Suc_upt del: upt_Suc)
  show ?case
    unfolding up
    by (auto simp add: Cons.IH filter_map o_def simp del: upt_Suc
             intro!: arg_cong [where f = "map ((!) xs)"] filter_cong)
qed

lemma readlines_concat_subseq: "subseq ls (readlines t) \<Longrightarrow> readlines (concat ls) = ls"
  by (rule readlines_concat) (rule line_seq_subseq [OF _ line_seq_readlines])

lemma readlines_concat_dedup: "readlines (concat (dedup (readlines t))) = dedup (readlines t)"
  by (rule readlines_concat_subseq [of _ t]) (simp add: dedup_def subseq_dedup_loop)

section \<open>Paths and file operations\<close>

lemma new_neq_last [simp]: "new_fullfn d f \<noteq> last_fullfn d f" "last_fullfn d f \<noteq> new_fullfn d f"
  by (simp_all add: new_fullfn_def last_fullfn_def path_join_def log_dir_def new_fn_pre_def last_fn_pre_def)

lemma final_neq_new [simp]:
  "final_out_fullfn t d f \<noteq> new_fullfn d' f'" "new_fullfn d' f' \<noteq> final_out_fullfn t d f"
  "final_out_fullfn t d f \<noteq> last_fullfn d' f'" "last_fullfn d' f' \<noteq> final_out_fullfn t d f"
  by (simp_all add: final_out_fullfn_def new_fullfn_def last_fullfn_def path_join_def log_dir_def out_dir_def
        new_fn_pre_def last_fn_pre_def out_fn_pre_def)

lemma tmp_neq [simp]:
  "final_out_fullfn t d f @ ''.tmp'' \<noteq> new_fullfn d' f'" 
  "final_out_fullfn t d f @ ''.tmp'' \<noteq> last_fullfn d' f'"
  "new_fullfn d' f' \<noteq> final_out_fullfn t d f @ ''.tmp''" 
  "last_fullfn d' f' \<noteq> final_out_fullfn t d f @ ''.tmp''" 
  by (simp_all add: final_out_fullfn_def new_fullfn_def last_fullfn_def path_join_def log_dir_def out_dir_def
        new_fn_pre_def last_fn_pre_def out_fn_pre_def)

lemma self_tmp [simp]: "p \<noteq> p @ ''.tmp''" "p @ ''.tmp'' \<noteq> p"
  by simp_all


lemma files_write_file [simp]: "files (write_file p t st) = (files st)(p \<mapsto> t)"
  by (simp add: write_file_def)

lemma files_logging_info [simp]: "files (logging_info m st) = files st"
  by (simp add: logging_info_def)

lemma files_append_file [simp]:
  "files (append_file p t st) = (files st)(p \<mapsto> (case files st p of None \<Rightarrow> [] | Some old \<Rightarrow> old) @ t)"
  by (simp add: append_file_def)

lemma publish_baseline:
  assumes "files st (last_fullfn d f) = Some last_text"
      and "files st (new_fullfn d f) = Some new_text"
      and "f = ''csv'' \<or> f = ''shef''"
  shows "\<exists>st1. publish w f d st = (Inr (), st1) \<and>
           files st1 = (files st)(final_out_fullfn (utc_now w) d f :=
             (let kept = delta_body (if f = ''csv'' then 1 else 2) last_text new_text
              in if 1 < length kept then Some (delta_header (utc_now w) f @ concat kept) else None))"
  using assms
  by (auto simp: publish_def isfile_def bind_def write_header_def write_new_lines_def start_row_def
        delta_header_def os_remove_def Let_def)

lemma finish_files:
  assumes "files st (new_fullfn d f) = Some new_text"
  shows "\<exists>st1. finish w f d st = (Inr (), st1) \<and>
           files st1 =
             (case files st (final_out_fullfn (utc_now w) d f) of
                None \<Rightarrow> (files st)(last_fullfn d f \<mapsto> new_text)
              | Some t \<Rightarrow> (files st)(final_out_fullfn (utc_now w) d f \<mapsto> concat (dedup (readlines t)),
                                   final_out_fullfn (utc_now w) d f @ ''.tmp'' := None,
                                   last_fullfn d f \<mapsto> new_text))"
  using assms
  by (auto simp: finish_def isfile_def bind_def remove_dup_lines_def copyfile_def os_remove_def Let_def)
lemma remove_dup_lines_files:
  assumes "files st path = Some text"
  shows "\<exists>st'. remove_dup_lines path st = (Inr (), st') \<and>
           files st' = (files st)(path \<mapsto> concat (dedup (readlines text)), path @ ''.tmp'' := None)"
  using assms
  by (auto simp: remove_dup_lines_def bind_def copyfile_def os_remove_def)

section \<open>The differ\<close>

lemma subseq_delta_body: "subseq (delta_body n last_text new_text) (readlines new_text)"
proof -
  have "subseq (delta_body n last_text new_text) (drop n (readlines new_text))"
    by (simp add: delta_body_def diff_def)
  moreover have "subseq (drop n (readlines new_text)) (readlines new_text)"
    by (metis append_take_drop_id subseq_rev_drop_many subseq_order.order_refl list_emb_append2)
  ultimately show ?thesis by (rule subseq_order.order_trans)
qed

lemma readlines_header_delta:
  assumes "old = [] \<or> last old = NL"
  shows "readlines (old @ concat (delta_body n last_text new_text))
           = readlines old @ delta_body n last_text new_text"
  using assms by (simp add: readlines_append readlines_concat_subseq [OF subseq_delta_body])

lemma delta_header_terminated: "last (delta_header now f) = NL" "delta_header now f \<noteq> []"
  by (simp_all add: delta_header_def)

lemma deliver_baseline:
  assumes "files st (last_fullfn d f) = Some last_text"
      and "files st (new_fullfn d f) = Some new_text"
      and "f = ''csv'' \<or> f = ''shef''"
  shows "\<exists>st'. deliver w f d st = (Inr (), st')
           \<and> files st' (new_fullfn d f) = Some new_text
           \<and> files st' (last_fullfn d f) = Some new_text
           \<and> files st' (final_out_fullfn (utc_now w) d f) =
               (let kept = delta_body (if f = ''csv'' then 1 else 2) last_text new_text
                in if 1 < length kept
                   then Some (concat (dedup (readlines (delta_header (utc_now w) f @ concat kept))))
                   else None)"
proof -
  from publish_baseline [OF assms, of w] obtain st1 where
    p: "publish w f d st = (Inr (), st1)" and
    f1: "files st1 = (files st)(final_out_fullfn (utc_now w) d f :=
             (let kept = delta_body (if f = ''csv'' then 1 else 2) last_text new_text
              in if 1 < length kept then Some (delta_header (utc_now w) f @ concat kept) else None))"
    by blast
  from f1 assms(2) have n1: "files st1 (new_fullfn d f) = Some new_text"
    by simp
  from finish_files [OF n1, of w] obtain st2 where
    q: "finish w f d st1 = (Inr (), st2)" and
    f2: "files st2 =
             (case files st1 (final_out_fullfn (utc_now w) d f) of
                None \<Rightarrow> (files st1)(last_fullfn d f \<mapsto> new_text)
              | Some t \<Rightarrow> (files st1)(final_out_fullfn (utc_now w) d f \<mapsto> concat (dedup (readlines t)),
                                   final_out_fullfn (utc_now w) d f @ ''.tmp'' := None,
                                   last_fullfn d f \<mapsto> new_text))"
    by blast
  have "deliver w f d st = (Inr (), st2)"
    using p q by (simp add: deliver_def bind_def)
  moreover have "files st2 (new_fullfn d f) = Some new_text"
    using f2 n1 by (simp split: option.splits)
  moreover have "files st2 (last_fullfn d f) = Some new_text"
    using f2 by (simp split: option.splits)
  moreover have "files st2 (final_out_fullfn (utc_now w) d f) =
               (let kept = delta_body (if f = ''csv'' then 1 else 2) last_text new_text
                in if 1 < length kept
                   then Some (concat (dedup (readlines (delta_header (utc_now w) f @ concat kept))))
                   else None)"
    using f2 f1 by (simp add: Let_def split: option.splits)
  ultimately show ?thesis by blast
qed

lemma readlines_published:
  "readlines (concat (dedup (readlines (delta_header now f @ concat (delta_body n last_text new_text)))))
     = dedup (readlines (delta_header now f) @ delta_body n last_text new_text)"
proof -
  have "readlines (delta_header now f @ concat (delta_body n last_text new_text))
          = readlines (delta_header now f) @ delta_body n last_text new_text"
    by (simp add: readlines_header_delta delta_header_terminated)
  with readlines_concat_dedup [of "delta_header now f @ concat (delta_body n last_text new_text)"]
  show ?thesis by simp
qed

lemma delta_body_same [simp]: "delta_body n t t = []"
  by (simp add: delta_body_def diff_def)

text \<open>
  Claim C2: in a run with a baseline, when the differ keeps at most one line the delta
  file that was created with its header is removed, nothing is appended, and no delta
  file is left at the end of the run; a snapshot diffed against an identical baseline
  keeps no line, so no delta file is produced; only when more than one line is kept are
  the kept lines appended after the header.
\<close>

theorem guard_discards_short_delta:
  assumes "files st (last_fullfn d f) = Some last_text"
      and "files st (new_fullfn d f) = Some new_text"
      and "f = ''csv'' \<or> f = ''shef''"
  shows "(let kept = delta_body (if f = ''csv'' then 1 else 2) last_text new_text;
              final = final_out_fullfn (utc_now w) d f
          in (\<exists>st'. deliver w f d st = (Inr (), st')
                \<and> (length kept \<le> 1 \<longrightarrow> files st' final = None)
                \<and> (1 < length kept \<longrightarrow>
                     (\<exists>t. files st' final = Some t
                        \<and> readlines t = dedup (readlines (delta_header (utc_now w) f) @ kept))))
             \<and> (\<forall>old. files st final = Some old \<longrightarrow>
                  (\<exists>st'. write_new_lines (last_fullfn d f) (new_fullfn d f) final f st = (Inr (), st')
                     \<and> files st' = (if 1 < length kept then (files st)(final \<mapsto> old @ concat kept)
                                    else (files st)(final := None))))
             \<and> (new_text = last_text \<longrightarrow> kept = []))"
proof -
  let ?n = "if f = ''csv'' then 1 else 2 :: nat"
  let ?kept = "delta_body ?n last_text new_text"
  let ?final = "final_out_fullfn (utc_now w) d f"
  from deliver_baseline [OF assms, of w] obtain st' where
    d: "deliver w f d st = (Inr (), st')" and
    f: "files st' ?final =
          (if 1 < length ?kept
           then Some (concat (dedup (readlines (delta_header (utc_now w) f @ concat ?kept))))
           else None)"
    unfolding Let_def by blast
  have a: "\<exists>st'. deliver w f d st = (Inr (), st')
                \<and> (length ?kept \<le> 1 \<longrightarrow> files st' ?final = None)
                \<and> (1 < length ?kept \<longrightarrow>
                     (\<exists>t. files st' ?final = Some t
                        \<and> readlines t = dedup (readlines (delta_header (utc_now w) f) @ ?kept)))"
    using d f by (auto simp: readlines_published)
  have s: "start_row f = Some ?n"
    using assms(3) by (auto simp: start_row_def)
  have b: "\<exists>st'. write_new_lines (last_fullfn d f) (new_fullfn d f) ?final f st = (Inr (), st')
                     \<and> files st' = (if 1 < length ?kept then (files st)(?final \<mapsto> old @ concat ?kept)
                                    else (files st)(?final := None))"
    if "files st ?final = Some old" for old
    using assms(1,2) s that by (simp add: write_new_lines_def os_remove_def)
  have c: "new_text = last_text \<longrightarrow> ?kept = []"
    by simp
  from a b c show ?thesis
    unfolding Let_def by blast
qed


theorem guard_discards_short_delta_witness:
  "files \<lparr>files = [last_fullfn ''HOURLY'' ''shef'' \<mapsto> ''TTAA00 KPTR 011305'' @ [NL] @ ''snotelWeb'' @ [NL] @ ''.AR CLJW1 20241101 Z DH1300/DUE /SWIRBZZ 12.3'',
                    new_fullfn ''HOURLY'' ''shef'' \<mapsto> ''TTAA00 KPTR 011405'' @ [NL] @ ''snotelWeb'' @ [NL] @ ''.AR CLJW1 20241101 Z DH1300/DUE /SWIRBZZ 12.3''],
           log = [], calls = []\<rparr> (last_fullfn ''HOURLY'' ''shef'')
     = Some (''TTAA00 KPTR 011305'' @ [NL] @ ''snotelWeb'' @ [NL] @ ''.AR CLJW1 20241101 Z DH1300/DUE /SWIRBZZ 12.3'')
   \<and> (\<exists>st'. deliver (sample_world ''WTEQ'' [] 1730469907000000000) ''shef'' ''HOURLY''
          \<lparr>files = [last_fullfn ''HOURLY'' ''shef'' \<mapsto> ''TTAA00 KPTR 011305'' @ [NL] @ ''snotelWeb'' @ [NL] @ ''.AR CLJW1 20241101 Z DH1300/DUE /SWIRBZZ 12.3'',
                    new_fullfn ''HOURLY'' ''shef'' \<mapsto> ''TTAA00 KPTR 011405'' @ [NL] @ ''snotelWeb'' @ [NL] @ ''.AR CLJW1 20241101 Z DH1300/DUE /SWIRBZZ 12.3''],
           log = [], calls = []\<rparr> = (Inr (), st')
        \<and> files st' (final_out_fullfn 1730469907000000000 ''HOURLY'' ''shef'') = None)"
proof -
  let ?last = "''TTAA00 KPTR 011305'' @ [NL] @ ''snotelWeb'' @ [NL] @ ''.AR CLJW1 20241101 Z DH1300/DUE /SWIRBZZ 12.3''"
  let ?new = "''TTAA00 KPTR 011405'' @ [NL] @ ''snotelWeb'' @ [NL] @ ''.AR CLJW1 20241101 Z DH1300/DUE /SWIRBZZ 12.3''"
  let ?st = "\<lparr>files = [last_fullfn ''HOURLY'' ''shef'' \<mapsto> ?last, new_fullfn ''HOURLY'' ''shef'' \<mapsto> ?new],
              log = [], calls = []\<rparr>"
  let ?w = "sample_world ''WTEQ'' [] 1730469907000000000"
  have h1: "files ?st (last_fullfn ''HOURLY'' ''shef'') = Some ?last" by simp
  have h2: "files ?st (new_fullfn ''HOURLY'' ''shef'') = Some ?new" by simp
  have h3: "''shef'' = ''csv'' \<or> ''shef'' = ''shef''" by simp
  have k: "delta_body 2 ?last ?new = []"
    by (simp add: delta_body_def diff_def)
  have u: "utc_now ?w = 1730469907000000000"
    by (simp add: sample_world_def)
  from guard_discards_short_delta [OF h1 h2 h3, of ?w] k h1 u
  show ?thesis
    by (simp add: Let_def)
qed


section \<open>Time normalisation and the bulletin line\<close>

lemma to_utc_Inr: "to_utc t off = Inr u \<Longrightarrow> u = t - off * ns_per_hour"
  by (simp add: to_utc_def Let_def split: if_splits)

lemma add_utcTime_Cons:
  "add_utcTime ((d, m) # rest) = Inr final_df \<Longrightarrow>
     \<exists>t rows. to_utc (date d) (meta_dataTimeZone m) = Inr t \<and> add_utcTime rest = Inr rows
        \<and> final_df = \<lparr>date = date d, value = value d, elementCode = elementCode d,
                     stationTriplet = stationTriplet d, PE = PE d,
                     dataTimeZone = meta_dataTimeZone m, shefId = meta_shefId m,
                     utcTime = t\<rparr> # rows"
  by (simp split: sum.splits)

lemma add_utcTime_rows:
  "add_utcTime joined = Inr final_df \<Longrightarrow>
     \<forall>r \<in> set final_df. utcTime r = date r - dataTimeZone r * ns_per_hour"
proof (induction joined arbitrary: final_df)
  case Nil
  then show ?case by simp
next
  case (Cons p joined)
  obtain d m where p: "p = (d, m)" by (cases p)
  from Cons.prems p add_utcTime_Cons obtain t rows where
    t: "to_utc (date d) (meta_dataTimeZone m) = Inr t" and
    r: "add_utcTime joined = Inr rows" and
    f: "final_df = \<lparr>date = date d, value = value d, elementCode = elementCode d,
                     stationTriplet = stationTriplet d, PE = PE d,
                     dataTimeZone = meta_dataTimeZone m, shefId = meta_shefId m,
                     utcTime = t\<rparr> # rows"
    by blast
  from Cons.IH [OF r] to_utc_Inr [OF t] f show ?case by simp
qed


text \<open>
  Claim C5: the UTC time stamp of every joined record is its station-local time stamp
  minus the station's offset in hours (subtracted, never added), so adding the offset
  to it gives the local time stamp back; and the conversion gives a time stamp whenever
  the offset and the difference are in the range of the representation.
\<close>

theorem utcTime_is_local_minus_offset:
  assumes "add_utcTime joined = Inr final_df"
  shows "(\<forall>r \<in> set final_df. utcTime r = date r - dataTimeZone r * ns_per_hour
                            \<and> utcTime r + dataTimeZone r * ns_per_hour = date r)
         \<and> (\<forall>u. to_utc t off = Inr u \<longrightarrow> u = t - off * ns_per_hour \<and> u + off * ns_per_hour = t)
         \<and> (in_ns_range (off * ns_per_hour) \<and> in_ns_range (t - off * ns_per_hour)
              \<longrightarrow> to_utc t off = Inr (t - off * ns_per_hour))"
proof -
  have a: "\<forall>r \<in> set final_df. utcTime r = date r - dataTimeZone r * ns_per_hour
                            \<and> utcTime r + dataTimeZone r * ns_per_hour = date r"
    using add_utcTime_rows [OF assms] by simp
  have b: "u = t - off * ns_per_hour \<and> u + off * ns_per_hour = t" if "to_utc t off = Inr u" for u
    using to_utc_Inr [OF that] by simp
  have c: "in_ns_range (off * ns_per_hour) \<and> in_ns_range (t - off * ns_per_hour)
              \<longrightarrow> to_utc t off = Inr (t - off * ns_per_hour)"
    by (simp add: to_utc_def Let_def)
  from a b c show ?thesis by blast
qed


theorem utcTime_is_local_minus_offset_witness:
  "add_utcTime [(\<lparr>date = 1730437200000000000, value = ''12.3'', elementCode = ''WTEQ'',
                   stationTriplet = ''679:WA:SNTL'', PE = Some ''SW''\<rparr>,
                 \<lparr>meta_stationTriplet = ''679:WA:SNTL'', meta_dataTimeZone = - 8,
                   meta_shefId = ''CLJW1''\<rparr>)]
     = Inr [\<lparr>date = 1730437200000000000, value = ''12.3'', elementCode = ''WTEQ'',
              stationTriplet = ''679:WA:SNTL'', PE = Some ''SW'', dataTimeZone = - 8,
              shefId = ''CLJW1'', utcTime = 1730466000000000000\<rparr>]
   \<and> to_utc 1730437200000000000 (- 8) = Inr 1730466000000000000
   \<and> 1730466000000000000 + (- 8) * ns_per_hour = 1730437200000000000
   \<and> in_ns_range ((- 8) * ns_per_hour) \<and> in_ns_range (1730437200000000000 - (- 8) * ns_per_hour)"
proof -
  let ?joined = "[(\<lparr>date = 1730437200000000000, value = ''12.3'', elementCode = ''WTEQ'',
                   stationTriplet = ''679:WA:SNTL'', PE = Some ''SW''\<rparr>,
                 \<lparr>meta_stationTriplet = ''679:WA:SNTL'', meta_dataTimeZone = - 8,
                   meta_shefId = ''CLJW1''\<rparr>)]"
  let ?final = "[\<lparr>date = 1730437200000000000, value = ''12.3'', elementCode = ''WTEQ'',
              stationTriplet = ''679:WA:SNTL'', PE = Some ''SW'', dataTimeZone = - 8,
              shefId = ''CLJW1'', utcTime = 1730466000000000000\<rparr>]"
  have r: "in_ns_range ((- 8) * ns_per_hour) \<and> in_ns_range (1730437200000000000 - (- 8) * ns_per_hour)"
    by code_simp
  have e: "1730437200000000000 - (- 8) * ns_per_hour = 1730466000000000000"
    by code_simp
  have h: "add_utcTime ?joined = Inr ?final"
    by code_simp
  from utcTime_is_local_minus_offset [OF h, of 1730437200000000000 "- 8"]
  have "to_utc 1730437200000000000 (- 8) = Inr (1730437200000000000 - (- 8) * ns_per_hour)"
    using r by blast
  with e have u: "to_utc 1730437200000000000 (- 8) = Inr 1730466000000000000"
    by simp
  from utcTime_is_local_minus_offset [OF h, of 1730437200000000000 "- 8"] u
  have "1730466000000000000 + (- 8) * ns_per_hour = 1730437200000000000"
    by blast
  with h u r show ?thesis by blast
qed





section \<open>The run, step by step\<close>


lemma bind_Inr_eq: "m = (Inr x, st1) \<Longrightarrow> bind m f = f x st1"
  by (simp add: bind_def)

lemma bind_Inl_eq: "m = (Inl e, st1) \<Longrightarrow> bind m f = (Inl e, st1)"
  by (simp add: bind_def)

lemma get_data_state:
  "snd (get_data w tr p d b st) = st\<lparr>calls := calls st @ [DataCall tr p d (''-'' @ b)]\<rparr>"
  "fst (get_data w tr p d b st) = fst (get_data w tr p d b st0)"
  by (auto simp add: get_data_def Let_def split: sum.splits)

lemma get_meta_state:
  "snd (get_meta w tr st) = st\<lparr>calls := calls st @ [MetaCall tr]\<rparr>"
  "fst (get_meta w tr st) = fst (get_meta w tr st0)"
  by (simp_all add: get_meta_def Let_def split: sum.splits)

lemma get_data_files: "get_data w tr p d b st = (r, st1) \<Longrightarrow> files st1 = files st \<and> log st1 = log st"
  using get_data_state(1) [of w tr p d b st] by simp

lemma get_meta_files: "get_meta w tr st = (r, st1) \<Longrightarrow> files st1 = files st \<and> log st1 = log st"
  using get_meta_state(1) [of w tr st] by simp

lemma get_data_indep:
  "get_data w tr p d b st = (r, st1) \<Longrightarrow> \<exists>st2. get_data w tr p d b st0 = (r, st2)"
  using get_data_state(2) [of w tr p d b st st0] by (cases "get_data w tr p d b st0") simp

lemma get_meta_indep:
  "get_meta w tr st = (r, st1) \<Longrightarrow> \<exists>st2. get_meta w tr st0 = (r, st2)"
  using get_meta_state(2) [of w tr st st0] by (cases "get_meta w tr st0") simp

lemma fetch_all_files:
  "fetch_all w a subsets st = (r, st1) \<Longrightarrow> files st1 = files st \<and> log st1 = log st"
proof (induction subsets arbitrary: st r st1)
  case Nil
  then show ?case by simp
next
  case (Cons s subsets)
  obtain r1 st2 where g: "get_data w (triplet_str s) (params a) (duration a) (back a) st = (r1, st2)"
    by (cases "get_data w (triplet_str s) (params a) (duration a) (back a) st")
  obtain r2 st3 where m: "get_meta w (triplet_str s) st2 = (r2, st3)"
    by (cases "get_meta w (triplet_str s) st2")
  obtain r3 st4 where f: "fetch_all w a subsets st3 = (r3, st4)"
    by (cases "fetch_all w a subsets st3")
  from get_data_files [OF g] get_meta_files [OF m] Cons.IH [OF f]
  have "files st2 = files st" "log st2 = log st" "files st3 = files st" "log st3 = log st"
       "files st4 = files st" "log st4 = log st"
    by simp_all
  with Cons.prems g m f show ?case
    by (auto split: sum.splits prod.splits)
qed

lemma fetch_all_indep:
  "fetch_all w a subsets st = (r, st1) \<Longrightarrow> \<exists>st2. fetch_all w a subsets st0 = (r, st2)"
proof (induction subsets arbitrary: st r st1 st0)
  case Nil
  then show ?case by simp
next
  case (Cons s subsets)
  obtain r1 st2 where g: "get_data w (triplet_str s) (params a) (duration a) (back a) st = (r1, st2)"
    by (cases "get_data w (triplet_str s) (params a) (duration a) (back a) st")
  from get_data_indep [OF g, of st0] obtain st2' where
    g': "get_data w (triplet_str s) (params a) (duration a) (back a) st0 = (r1, st2')" by blast
  obtain r2 st3 where m: "get_meta w (triplet_str s) st2 = (r2, st3)"
    by (cases "get_meta w (triplet_str s) st2")
  from get_meta_indep [OF m, of st2'] obtain st3' where
    m': "get_meta w (triplet_str s) st2' = (r2, st3')" by blast
  obtain r3 st4 where f: "fetch_all w a subsets st3 = (r3, st4)"
    by (cases "fetch_all w a subsets st3")
  from Cons.IH [OF f, of st3'] obtain st4' where
    f': "fetch_all w a subsets st3' = (r3, st4')" by blast
  from Cons.prems g m f g' m' f' show ?case
    by (auto split: sum.splits prod.splits)
qed


lemma acquire_all:
  assumes "locid a = ''all''"
      and "batches l (snotel_meta_df w) = Inr subsets"
      and "fetch_all w a subsets st = (r, st1)"
  shows "acquire w l a st =
           (case r of
              Inl e \<Rightarrow> (Inl e, st1)
            | Inr (data_li, meta_li) \<Rightarrow>
                (case pd_concat data_li of
                   Inl e \<Rightarrow> (Inl e, st1)
                 | Inr all_data_df \<Rightarrow>
                     (case pd_concat meta_li of
                        Inl e \<Rightarrow> (Inl e, st1)
                      | Inr all_meta_df \<Rightarrow> (Inr (Some all_data_df, Some all_meta_df), st1))))"
  using assms by (simp add: acquire_def bind_def split: sum.splits prod.splits)

lemma acquire_single:
  assumes "locid a \<noteq> ''all''"
      and "get_data w (triplet_str (filter (\<lambda>r. ShefId r = locid a) (snotel_meta_df w)))
             (params a) (duration a) (back a) st = (r1, st1)"
      and "get_meta w (triplet_str (filter (\<lambda>r. ShefId r = locid a) (snotel_meta_df w))) st1 = (r2, st2)"
  shows "acquire w l a st =
           (case r1 of
              Inl e \<Rightarrow> (Inr (None, None), logging_info ''improper character length for LID'' st1)
            | Inr all_data_df \<Rightarrow>
                (case r2 of
                   Inl e \<Rightarrow> (Inr (Some all_data_df, None),
                             logging_info ''improper character length for LID'' st2)
                 | Inr all_meta_df \<Rightarrow> (Inr (Some all_data_df, Some all_meta_df), st2)))"
  using assms by (simp add: acquire_def Let_def split: sum.splits)

lemma acquire_files: "acquire w l a st = (r, st1) \<Longrightarrow> files st1 = files st"
proof (cases "locid a = ''all''")
  case True
  assume acq: "acquire w l a st = (r, st1)"
  show ?thesis
  proof (cases "batches l (snotel_meta_df w)")
    case (Inl e)
    with True acq show ?thesis by (simp add: acquire_def)
  next
    case (Inr subsets)
    obtain r' st' where f: "fetch_all w a subsets st = (r', st')"
      by (cases "fetch_all w a subsets st")
    from fetch_all_files [OF f] acquire_all [OF True Inr f] acq show ?thesis
      by (auto split: sum.splits prod.splits)
  qed
next
  case False
  assume acq: "acquire w l a st = (r, st1)"
  let ?tr = "triplet_str (filter (\<lambda>r. ShefId r = locid a) (snotel_meta_df w))"
  obtain r1 st2 where g: "get_data w ?tr (params a) (duration a) (back a) st = (r1, st2)"
    by (cases "get_data w ?tr (params a) (duration a) (back a) st")
  obtain r2 st3 where m: "get_meta w ?tr st2 = (r2, st3)"
    by (cases "get_meta w ?tr st2")
  from get_data_files [OF g] get_meta_files [OF m] acquire_single [OF False g m] acq
  show ?thesis
    by (auto split: sum.splits)
qed

lemma acquire_indep:
  assumes "acquire w l a st = (r, st1)"
  shows "\<exists>st2. acquire w l a st0 = (r, st2)"
proof (cases "locid a = ''all''")
  case True
  show ?thesis
  proof (cases "batches l (snotel_meta_df w)")
    case (Inl e)
    with True assms show ?thesis by (simp add: acquire_def)
  next
    case (Inr subsets)
    obtain r' st' where f: "fetch_all w a subsets st = (r', st')"
      by (cases "fetch_all w a subsets st")
    from fetch_all_indep [OF f, of st0] obtain st2 where
      f': "fetch_all w a subsets st0 = (r', st2)" by blast
    from acquire_all [OF True Inr f] acquire_all [OF True Inr f'] assms show ?thesis
      by (auto split: sum.splits prod.splits)
  qed
next
  case False
  let ?tr = "triplet_str (filter (\<lambda>r. ShefId r = locid a) (snotel_meta_df w))"
  obtain r1 st2 where g: "get_data w ?tr (params a) (duration a) (back a) st = (r1, st2)"
    by (cases "get_data w ?tr (params a) (duration a) (back a) st")
  from get_data_indep [OF g, of st0] obtain st2' where
    g': "get_data w ?tr (params a) (duration a) (back a) st0 = (r1, st2')" by blast
  obtain r2 st3 where m: "get_meta w ?tr st2 = (r2, st3)"
    by (cases "get_meta w ?tr st2")
  from get_meta_indep [OF m, of st2'] obtain st3' where
    m': "get_meta w ?tr st2' = (r2, st3')" by blast
  from acquire_single [OF False g m] acquire_single [OF False g' m'] assms show ?thesis
    by (auto split: sum.splits)
qed


lemma write_snapshot_ok:
  assumes "snapshot_text w f dur final_df = Inr t"
  shows "\<exists>st1. write_snapshot w f dur final_df st = (Inr (), st1)
           \<and> files st1 = (files st)(new_fullfn dur f \<mapsto> t)
           \<and> log st1 = log st \<and> calls st1 = calls st"
  using assms
  by (auto simp: snapshot_text_def write_snapshot_def write_header_def bind_def delta_header_def
        write_file_def append_file_def Let_def split: if_splits sum.splits)


lemma write_snapshot_unset:
  assumes "f \<noteq> ''csv''" and "None \<in> set (out_lines dur final_df)"
  shows "\<exists>st1. write_snapshot w f dur final_df st = (Inl TypeError, st1)
           \<and> files st1 = (files st)(new_fullfn dur f \<mapsto> (if f = ''shef'' then delta_header (utc_now w) f else []))
           \<and> log st1 = log st"
  using assms
  by (auto simp: write_snapshot_def write_header_def bind_def delta_header_def join_out_lines_def
        write_file_def Let_def)


lemma publish_no_baseline:
  assumes "files st (last_fullfn d f) = None" and "files st (new_fullfn d f) = Some t"
  shows "\<exists>st1. publish w f d st = (Inr (), st1)
           \<and> files st1 = (files st)(final_out_fullfn (utc_now w) d f \<mapsto> t)"
  using assms by (auto simp: publish_def isfile_def copyfile_def Let_def)


lemma deliver_no_baseline:
  assumes "files st (last_fullfn d f) = None" and "files st (new_fullfn d f) = Some t"
  shows "\<exists>st'. deliver w f d st = (Inr (), st')
           \<and> files st' (new_fullfn d f) = Some t
           \<and> files st' (last_fullfn d f) = Some t
           \<and> files st' (final_out_fullfn (utc_now w) d f) = Some (concat (dedup (readlines t)))"
proof -
  from publish_no_baseline [OF assms, of w] obtain st1 where
    p: "publish w f d st = (Inr (), st1)" and
    f1: "files st1 = (files st)(final_out_fullfn (utc_now w) d f \<mapsto> t)"
    by blast
  from f1 assms(2) have n1: "files st1 (new_fullfn d f) = Some t"
    by simp
  from finish_files [OF n1, of w] obtain st2 where
    q: "finish w f d st1 = (Inr (), st2)" and
    f2: "files st2 =
             (case files st1 (final_out_fullfn (utc_now w) d f) of
                None \<Rightarrow> (files st1)(last_fullfn d f \<mapsto> t)
              | Some t' \<Rightarrow> (files st1)(final_out_fullfn (utc_now w) d f \<mapsto> concat (dedup (readlines t')),
                                   final_out_fullfn (utc_now w) d f @ ''.tmp'' := None,
                                   last_fullfn d f \<mapsto> t))"
    by blast
  have "deliver w f d st = (Inr (), st2)"
    using p q by (simp add: deliver_def bind_def)
  moreover have "files st2 (new_fullfn d f) = Some t"
    using f2 f1 n1 by simp
  moreover have "files st2 (last_fullfn d f) = Some t"
    using f2 f1 by simp
  moreover have "files st2 (final_out_fullfn (utc_now w) d f) = Some (concat (dedup (readlines t)))"
    using f2 f1 by simp
  ultimately show ?thesis by blast
qed



lemma emit_ok:
  assumes "snapshot_text w f d final_df = Inr t"
  shows "\<exists>st1. files st1 = (files st)(new_fullfn d f \<mapsto> t)
           \<and> emit w f d final_df st = deliver w f d st1"
proof -
  from write_snapshot_ok [OF assms, of st] obtain st1 where
    "write_snapshot w f d final_df st = (Inr (), st1)"
    "files st1 = (files st)(new_fullfn d f \<mapsto> t)"
    by blast
  then show ?thesis
    by (auto simp: emit_def bind_def)
qed


lemma main_eq_emit:
  assumes "acquire w l a (logging_info ''scraping started'' st) = (Inr (Some data, Some meta), st1)"
      and "join_frames data meta = Inr final_df"
  shows "main w f l a st = emit w f (duration a) final_df (logging_info ''scraping completed'' st1)"
  using assms by (simp add: main_def bind_def Let_def)


lemma run_frame_Inr:
  assumes "run_frame w l a = Inr final_df"
  shows "\<exists>data meta st1.
           acquire w l a st = (Inr (Some data, Some meta), st1) \<and> files st1 = files st
           \<and> join_frames data meta = Inr final_df"
proof -
  obtain r st0 where a0: "acquire w l a fresh = (r, st0)"
    by (cases "acquire w l a fresh")
  with assms obtain data meta where
    r: "r = Inr (Some data, Some meta)" and
    j: "join_frames data meta = Inr final_df"
    by (auto simp: run_frame_def split: sum.splits prod.splits option.splits)
  from acquire_indep [OF a0, of st] obtain st1 where
    a1: "acquire w l a st = (r, st1)" by blast
  from acquire_files [OF a1] a1 r j show ?thesis by blast
qed

lemma run_snapshot_frame:
  "run_snapshot w f l a =
     (case run_frame w l a of Inl e \<Rightarrow> Inl e | Inr final_df \<Rightarrow> snapshot_text w f (duration a) final_df)"
  by (simp add: run_snapshot_def)

lemma run_snapshot_Inr:
  assumes "run_snapshot w f l a = Inr t"
  shows "\<exists>data meta st1 final_df.
           acquire w l a st = (Inr (Some data, Some meta), st1) \<and> files st1 = files st
           \<and> join_frames data meta = Inr final_df
           \<and> snapshot_text w f (duration a) final_df = Inr t"
proof -
  from assms obtain final_df where
    r: "run_frame w l a = Inr final_df" and
    s: "snapshot_text w f (duration a) final_df = Inr t"
    by (auto simp: run_snapshot_def split: sum.splits)
  from run_frame_Inr [OF r, of st] s show ?thesis by blast
qed

lemma main_with_baseline:
  assumes "run_snapshot w f l a = Inr t"
      and "files st (last_fullfn (duration a) f) = Some last_text"
      and "f = ''csv'' \<or> f = ''shef''"
  shows "\<exists>st'. main w f l a st = (Inr (), st')
           \<and> files st' (new_fullfn (duration a) f) = Some t
           \<and> files st' (last_fullfn (duration a) f) = Some t
           \<and> files st' (final_out_fullfn (utc_now w) (duration a) f) =
               (let kept = delta_body (if f = ''csv'' then 1 else 2) last_text t
                in if 1 < length kept
                   then Some (concat (dedup (readlines (delta_header (utc_now w) f @ concat kept))))
                   else None)"
proof -
  from run_snapshot_Inr [OF assms(1), of "logging_info ''scraping started'' st"]
  obtain data meta st1 final_df where
    a: "acquire w l a (logging_info ''scraping started'' st) = (Inr (Some data, Some meta), st1)" and
    f1: "files st1 = files st" and
    j: "join_frames data meta = Inr final_df" and
    s: "snapshot_text w f (duration a) final_df = Inr t"
    by auto
  from emit_ok [OF s, of "logging_info ''scraping completed'' st1"] obtain st2 where
    f2: "files st2 = (files st)(new_fullfn (duration a) f \<mapsto> t)" and
    e: "emit w f (duration a) final_df (logging_info ''scraping completed'' st1)
          = deliver w f (duration a) st2"
    using f1 by auto
  from f2 assms(2) have l2: "files st2 (last_fullfn (duration a) f) = Some last_text"
    by simp
  from f2 have n2: "files st2 (new_fullfn (duration a) f) = Some t"
    by simp
  from deliver_baseline [OF l2 n2 assms(3), of w] main_eq_emit [OF a j, of f] e
  show ?thesis by simp
qed

lemma main_without_baseline:
  assumes "run_snapshot w f l a = Inr t"
      and "files st (last_fullfn (duration a) f) = None"
  shows "\<exists>st'. main w f l a st = (Inr (), st')
           \<and> files st' (new_fullfn (duration a) f) = Some t
           \<and> files st' (last_fullfn (duration a) f) = Some t
           \<and> files st' (final_out_fullfn (utc_now w) (duration a) f) = Some (concat (dedup (readlines t)))"
proof -
  from run_snapshot_Inr [OF assms(1), of "logging_info ''scraping started'' st"]
  obtain data meta st1 final_df where
    a: "acquire w l a (logging_info ''scraping started'' st) = (Inr (Some data, Some meta), st1)" and
    f1: "files st1 = files st" and
    j: "join_frames data meta = Inr final_df" and
    s: "snapshot_text w f (duration a) final_df = Inr t"
    by auto
  from emit_ok [OF s, of "logging_info ''scraping completed'' st1"] obtain st2 where
    f2: "files st2 = (files st)(new_fullfn (duration a) f \<mapsto> t)" and
    e: "emit w f (duration a) final_df (logging_info ''scraping completed'' st1)
          = deliver w f (duration a) st2"
    using f1 by auto
  from f2 assms(2) have l2: "files st2 (last_fullfn (duration a) f) = None"
    by simp
  from f2 have n2: "files st2 (new_fullfn (duration a) f) = Some t"
    by simp
  from deliver_no_baseline [OF l2 n2, of w] main_eq_emit [OF a j, of f] e
  show ?thesis by simp
qed



section \<open>Runs of the sample station\<close>

lemma sample_duration [simp]: "duration (sample_args l) = ''HOURLY''"
  by (simp add: sample_args_def)

lemma utc_now_sample [simp]: "utc_now (sample_world c v now) = now"
  by (simp add: sample_world_def)

lemma snapshot_c:
  "run_snapshot world_c ''shef'' 95 (sample_args ''all'')
     = Inr snap_c"
  by code_simp

section \<open>Output formats\<close>

lemma calls_write_file [simp]: "calls (write_file p t st) = calls st"
  by (simp add: write_file_def)

lemma calls_append_file [simp]: "calls (append_file p t st) = calls st"
  by (simp add: append_file_def)

lemma calls_logging_info [simp]: "calls (logging_info m st) = calls st"
  by (simp add: logging_info_def)

lemma calls_os_remove [simp]: "calls (snd (os_remove p st)) = calls st"
  by (simp add: os_remove_def split: option.splits)

lemma calls_copyfile [simp]: "calls (snd (copyfile p q st)) = calls st"
  by (simp add: copyfile_def split: option.splits)

lemma calls_write_header [simp]: "calls (snd (write_header now p f h st)) = calls st"
  by (simp add: write_header_def Let_def split: option.splits)

lemma calls_write_new_lines [simp]: "calls (snd (write_new_lines p q r f st)) = calls st"
  by (simp add: write_new_lines_def Let_def split: option.splits)

lemma calls_bind:
  assumes "calls (snd m) = c" and "\<And>x st1. calls st1 = c \<Longrightarrow> calls (snd (g x st1)) = c"
  shows "calls (snd (bind m g)) = c"
  using assms by (cases m) (auto simp: bind_def split: sum.splits)

lemma calls_remove_dup_lines [simp]: "calls (snd (remove_dup_lines p st)) = calls st"
  unfolding remove_dup_lines_def
  by (rule calls_bind) (simp_all split: option.splits)

lemma calls_write_snapshot [simp]: "calls (snd (write_snapshot w f d df st)) = calls st"
  by (auto simp: write_snapshot_def intro!: calls_bind split: sum.splits)

lemma calls_publish [simp]: "calls (snd (publish w f d st)) = calls st"
  by (auto simp: publish_def Let_def intro!: calls_bind)

lemma calls_finish [simp]: "calls (snd (finish w f d st)) = calls st"
  by (auto simp: finish_def Let_def intro!: calls_bind)

lemma calls_emit [simp]: "calls (snd (emit w f d df st)) = calls st"
  by (auto simp: emit_def deliver_def intro!: calls_bind)

lemma calls_main:
  "calls (snd (main w f l a st)) = calls (snd (acquire w l a (logging_info ''scraping started'' st)))"
  by (cases "acquire w l a (logging_info ''scraping started'' st)")
     (auto simp: main_def bind_def Let_def split: sum.splits option.splits)


lemma snapshot_text_unknown:
  assumes "f \<noteq> ''csv''" and "f \<noteq> ''shef''"
  shows "snapshot_text w f d final_df = join_out_lines (out_lines d final_df)"
  using assms by (simp add: snapshot_text_def split: sum.splits)

lemma main_unknown_format:
  assumes "f \<noteq> ''csv''" and "f \<noteq> ''shef''"
      and "run_frame w l a = Inr final_df"
      and "join_out_lines (out_lines (duration a) final_df) = Inr t"
      and "files st (last_fullfn (duration a) f) = None"
  shows "\<exists>st'. main w f l a st = (Inr (), st')
           \<and> calls st' = calls (snd (acquire w l a (logging_info ''scraping started'' st)))
           \<and> files st' (new_fullfn (duration a) f) = Some t
           \<and> files st' (last_fullfn (duration a) f) = Some t
           \<and> files st' (final_out_fullfn (utc_now w) (duration a) f) = Some (concat (dedup (readlines t)))"
proof -
  have "run_snapshot w f l a = Inr t"
    using assms(1-4) by (simp add: run_snapshot_frame snapshot_text_unknown)
  from main_without_baseline [OF this assms(5)] obtain st' where
    m: "main w f l a st = (Inr (), st')" and
    f: "files st' (new_fullfn (duration a) f) = Some t"
       "files st' (last_fullfn (duration a) f) = Some t"
       "files st' (final_out_fullfn (utc_now w) (duration a) f) = Some (concat (dedup (readlines t)))"
    by blast
  from calls_main [of w f l a st] m
  have "calls st' = calls (snd (acquire w l a (logging_info ''scraping started'' st)))"
    by simp
  with m f show ?thesis by blast
qed

lemma frame_a:
  "run_frame world_a 95 (sample_args ''all'')
     = Inr [\<lparr>date = 1730437200000000000, value = ''12.3'', elementCode = ''WTEQ'',
              stationTriplet = ''679:WA:SNTL'', PE = Some ''SW'', dataTimeZone = - 8,
              shefId = ''CLJW1'', utcTime = 1730466000000000000\<rparr>,
            \<lparr>date = 1730440800000000000, value = ''12.4'', elementCode = ''WTEQ'',
              stationTriplet = ''679:WA:SNTL'', PE = Some ''SW'', dataTimeZone = - 8,
              shefId = ''CLJW1'', utcTime = 1730469600000000000\<rparr>,
            \<lparr>date = 1730448000000000000, value = ''12.6'', elementCode = ''WTEQ'',
              stationTriplet = ''679:WA:SNTL'', PE = Some ''SW'', dataTimeZone = - 8,
              shefId = ''CLJW1'', utcTime = 1730476800000000000\<rparr>]"
  by code_simp

lemma body_a:
  "join_out_lines (out_lines ''HOURLY''
     [\<lparr>date = 1730437200000000000, value = ''12.3'', elementCode = ''WTEQ'',
              stationTriplet = ''679:WA:SNTL'', PE = Some ''SW'', dataTimeZone = - 8,
              shefId = ''CLJW1'', utcTime = 1730466000000000000\<rparr>,
            \<lparr>date = 1730440800000000000, value = ''12.4'', elementCode = ''WTEQ'',
              stationTriplet = ''679:WA:SNTL'', PE = Some ''SW'', dataTimeZone = - 8,
              shefId = ''CLJW1'', utcTime = 1730469600000000000\<rparr>,
            \<lparr>date = 1730448000000000000, value = ''12.6'', elementCode = ''WTEQ'',
              stationTriplet = ''679:WA:SNTL'', PE = Some ''SW'', dataTimeZone = - 8,
              shefId = ''CLJW1'', utcTime = 1730476800000000000\<rparr>])
     = Inr (line_1300 @ [NL] @ line_1400 @ [NL] @ line_1600)"
  by code_simp

lemma calls_a:
  "calls (snd (acquire world_a 95 (sample_args ''all'') (logging_info ''scraping started'' fresh)))
     = [DataCall [''679:WA:SNTL''] ''WTEQ'' ''HOURLY'' ''-3'', MetaCall [''679:WA:SNTL'']]"
  by code_simp


lemma fresh_no_file [simp]: "files fresh p = None"
  by (simp add: fresh_def)

text \<open>
  Claim C9 as stated fails: with the format json and no baseline, the run of the sample
  station sends its two requests and ends without any error.
\<close>

theorem unknown_format_run_completes:
  "fst (main world_a ''json'' max_call_ids (sample_args ''all'') fresh) = Inr ()
   \<and> calls (snd (main world_a ''json'' max_call_ids (sample_args ''all'') fresh))
       = [DataCall [''679:WA:SNTL''] ''WTEQ'' ''HOURLY'' ''-3'', MetaCall [''679:WA:SNTL'']]"
proof -
  have h1: "''json'' \<noteq> ''csv''" and h2: "''json'' \<noteq> ''shef''"
    by simp_all
  have h4: "join_out_lines (out_lines (duration (sample_args ''all''))
     [\<lparr>date = 1730437200000000000, value = ''12.3'', elementCode = ''WTEQ'',
              stationTriplet = ''679:WA:SNTL'', PE = Some ''SW'', dataTimeZone = - 8,
              shefId = ''CLJW1'', utcTime = 1730466000000000000\<rparr>,
            \<lparr>date = 1730440800000000000, value = ''12.4'', elementCode = ''WTEQ'',
              stationTriplet = ''679:WA:SNTL'', PE = Some ''SW'', dataTimeZone = - 8,
              shefId = ''CLJW1'', utcTime = 1730469600000000000\<rparr>,
            \<lparr>date = 1730448000000000000, value = ''12.6'', elementCode = ''WTEQ'',
              stationTriplet = ''679:WA:SNTL'', PE = Some ''SW'', dataTimeZone = - 8,
              shefId = ''CLJW1'', utcTime = 1730476800000000000\<rparr>])
     = Inr (line_1300 @ [NL] @ line_1400 @ [NL] @ line_1600)"
    using body_a by simp
  have h5: "files fresh (last_fullfn (duration (sample_args ''all'')) ''json'') = None"
    by simp
  from main_unknown_format [OF h1 h2 frame_a h4 h5] calls_a
  show ?thesis
    by (auto simp: max_call_ids_def)
qed


section \<open>Unset codes and unknown stations\<close>

lemma code_dict_unknown:
  "c \<notin> {''PREC'', ''TOBS'', ''WTEQ'', ''SNWD''} \<Longrightarrow> code_dict c = None"
  by (simp add: code_dict_def)

lemma gage_df_PE: "x \<in> set (gage_df json_str) \<Longrightarrow> PE x = code_dict (elementCode x)"
  by (auto simp: gage_df_def)

lemma out_lines_unset:
  "r \<in> set final_df \<Longrightarrow> PE r = None \<Longrightarrow> None \<in> set (out_lines d final_df)"
  by (force simp: out_lines_def out_line_def)

lemma main_unset_PE:
  assumes "f \<noteq> ''csv''"
      and "run_frame w l a = Inr final_df"
      and "r \<in> set final_df" and "PE r = None"
  shows "\<exists>st'. main w f l a st = (Inl TypeError, st')
           \<and> files st' = (files st)(new_fullfn (duration a) f \<mapsto>
                             (if f = ''shef'' then delta_header (utc_now w) f else []))"
proof -
  from run_frame_Inr [OF assms(2), of "logging_info ''scraping started'' st"]
  obtain data meta st1 where
    a: "acquire w l a (logging_info ''scraping started'' st) = (Inr (Some data, Some meta), st1)" and
    f1: "files st1 = files st" and
    j: "join_frames data meta = Inr final_df"
    by auto
  from write_snapshot_unset [OF assms(1) out_lines_unset [OF assms(3,4)],
         of w "duration a" "logging_info ''scraping completed'' st1"]
  obtain st2 where
    s: "write_snapshot w f (duration a) final_df (logging_info ''scraping completed'' st1)
          = (Inl TypeError, st2)" and
    f2: "files st2 = (files st)(new_fullfn (duration a) f \<mapsto>
                        (if f = ''shef'' then delta_header (utc_now w) f else []))"
    using f1 by auto
  from s have "emit w f (duration a) final_df (logging_info ''scraping completed'' st1)
                 = (Inl TypeError, st2)"
    by (simp add: emit_def bind_def)
  with main_eq_emit [OF a j, of f] f2 show ?thesis by simp
qed

text \<open>
  Claim C7 against the code: a record whose element code is outside the lookup table
  has an unset physical-element code, and the bulletin encoder does not skip it: joining
  the lines raises TypeError, the run ends there with only the header in the new
  snapshot, and nothing is published or promoted.
\<close>

theorem unset_PE_aborts_run:
  assumes "f \<noteq> ''csv''"
      and "run_frame w l a = Inr final_df"
      and "r \<in> set final_df" and "PE r = None"
  shows "(\<exists>st'. main w f l a st = (Inl TypeError, st')
            \<and> files st' = (files st)(new_fullfn (duration a) f \<mapsto>
                              (if f = ''shef'' then delta_header (utc_now w) f else [])))
         \<and> (c \<notin> {''PREC'', ''TOBS'', ''WTEQ'', ''SNWD''} \<longrightarrow> code_dict c = None)
         \<and> (\<forall>x \<in> set (gage_df json_str). PE x = code_dict (elementCode x))"
  using main_unset_PE [OF assms] code_dict_unknown [of c] gage_df_PE [of _ json_str]
  by blast

lemma frame_unknown_code:
  "run_frame (sample_world ''PRCP'' [reading_0500] 1730477107000000000) 95 (sample_args ''all'')
     = Inr [\<lparr>date = 1730437200000000000, value = ''12.3'', elementCode = ''PRCP'',
              stationTriplet = ''679:WA:SNTL'', PE = None, dataTimeZone = - 8,
              shefId = ''CLJW1'', utcTime = 1730466000000000000\<rparr>]"
  by code_simp

theorem unset_PE_aborts_run_witness:
  "''shef'' \<noteq> ''csv''
   \<and> ''PRCP'' \<notin> {''PREC'', ''TOBS'', ''WTEQ'', ''SNWD''}
   \<and> code_dict ''PRCP'' = None
   \<and> (\<exists>st'. run (sample_world ''PRCP'' [reading_0500] 1730477107000000000) (sample_args ''all'')
               baseline_state = (Inl TypeError, st')
          \<and> files st' (new_fullfn ''HOURLY'' ''shef'') = Some (''TTAA00 KPTR 011605'' @ [NL] @ ''snotelWeb'' @ [NL])
          \<and> files st' (last_fullfn ''HOURLY'' ''shef'') = Some baseline_text
          \<and> files st' (final_out_fullfn 1730477107000000000 ''HOURLY'' ''shef'') = None)"
proof -
  let ?r = "\<lparr>date = 1730437200000000000, value = ''12.3'', elementCode = ''PRCP'',
              stationTriplet = ''679:WA:SNTL'', PE = None, dataTimeZone = - 8,
              shefId = ''CLJW1'', utcTime = 1730466000000000000\<rparr>"
  have h1: "''shef'' \<noteq> ''csv''" by simp
  have h3: "?r \<in> set [?r]" by simp
  have h4: "PE ?r = None" by simp
  have c: "''PRCP'' \<notin> {''PREC'', ''TOBS'', ''WTEQ'', ''SNWD''}" by simp
  have d: "delta_header 1730477107000000000 ''shef'' = ''TTAA00 KPTR 011605'' @ [NL] @ ''snotelWeb'' @ [NL]"
    by code_simp
  from unset_PE_aborts_run [OF h1 frame_unknown_code h3 h4,
         where st = baseline_state and c = "''PRCP''" and json_str = "\<lparr>json_stationTriplet = [], json_data = []\<rparr>"] c
  obtain st' where
    m: "main (sample_world ''PRCP'' [reading_0500] 1730477107000000000) ''shef'' 95
          (sample_args ''all'') baseline_state = (Inl TypeError, st')" and
    f: "files st' = (files baseline_state)(new_fullfn ''HOURLY'' ''shef'' \<mapsto>
                       delta_header 1730477107000000000 ''shef'')" and
    k: "code_dict ''PRCP'' = None"
    by auto
  from f d have
    "files st' (new_fullfn ''HOURLY'' ''shef'') = Some (''TTAA00 KPTR 011605'' @ [NL] @ ''snotelWeb'' @ [NL])"
    "files st' (last_fullfn ''HOURLY'' ''shef'') = Some baseline_text"
    "files st' (final_out_fullfn 1730477107000000000 ''HOURLY'' ''shef'') = None"
    by (simp_all add: baseline_state_def)
  with m k c show ?thesis
    by (auto simp: run_def out_fmt_def max_call_ids_def)
qed


lemma acquire_lookup_miss:
  assumes "locid a \<noteq> ''all''"
      and "\<forall>r \<in> set (snotel_meta_df w). ShefId r \<noteq> locid a"
      and "data_service w [] (params a) (duration a) (''-'' @ back a) = Inl e
           \<or> data_service w [] (params a) (duration a) (''-'' @ back a) = Inr []"
  shows "acquire w l a st =
           (Inr (None, None),
            logging_info ''improper character length for LID''
              (st\<lparr>calls := calls st @ [DataCall [] (params a) (duration a) (''-'' @ back a)]\<rparr>))"
proof -
  from assms(2) have "filter (\<lambda>r. ShefId r = locid a) (snotel_meta_df w) = []"
    by (simp add: filter_empty_conv)
  then have t: "triplet_str (filter (\<lambda>r. ShefId r = locid a) (snotel_meta_df w)) = []"
    by (simp add: triplet_str_def)
  from assms(3) obtain e' where
    g: "get_data w [] (params a) (duration a) (back a) st
          = (Inl e', st\<lparr>calls := calls st @ [DataCall [] (params a) (duration a) (''-'' @ back a)]\<rparr>)"
    by (auto simp: get_data_def pd_concat_def Let_def)
  from assms(1) t g show ?thesis
    by (simp add: acquire_def)
qed

lemma main_lookup_miss:
  assumes "locid a \<noteq> ''all''"
      and "\<forall>r \<in> set (snotel_meta_df w). ShefId r \<noteq> locid a"
      and "data_service w [] (params a) (duration a) (''-'' @ back a) = Inl e
           \<or> data_service w [] (params a) (duration a) (''-'' @ back a) = Inr []"
  shows "\<exists>st'. main w f l a st = (Inl (UnboundLocalError ''all_data_df''), st')
           \<and> files st' = files st
           \<and> log st' = log st @ [''scraping started'', ''improper character length for LID'',
                                  ''scraping completed'']
           \<and> calls st' = calls st @ [DataCall [] (params a) (duration a) (''-'' @ back a)]"
  using acquire_lookup_miss [OF assms, of l "logging_info ''scraping started'' st"]
  by (simp add: main_def bind_def Let_def logging_info_def)

text \<open>
  Claim C8 against the code: when the single-station selector matches no row of the
  reference table and the request for no station raises (the service fails, or answers
  with no station), the exception is caught and logged, but the run does not complete:
  line 253 reads \<open>all_data_df\<close>, which was never assigned, and the run ends with
  UnboundLocalError. No file is created or changed.
\<close>

theorem lookup_miss_aborts_run:
  assumes "locid a \<noteq> ''all''"
      and "\<forall>r \<in> set (snotel_meta_df w). ShefId r \<noteq> locid a"
      and "data_service w [] (params a) (duration a) (''-'' @ back a) = Inl e
           \<or> data_service w [] (params a) (duration a) (''-'' @ back a) = Inr []"
  shows "\<exists>st'. main w f l a st = (Inl (UnboundLocalError ''all_data_df''), st')
           \<and> files st' = files st
           \<and> log st' = log st @ [''scraping started'', ''improper character length for LID'',
                                  ''scraping completed'']
           \<and> calls st' = calls st @ [DataCall [] (params a) (duration a) (''-'' @ back a)]"
  using assms by (rule main_lookup_miss)

theorem lookup_miss_aborts_run_witness:
  "locid (sample_args ''XXXXX'') \<noteq> ''all''
   \<and> map ShefId (snotel_meta_df (sample_world ''WTEQ'' [reading_0500] 1730477107000000000)) = [''CLJW1'']
   \<and> data_service (sample_world ''WTEQ'' [reading_0500] 1730477107000000000) [] ''WTEQ'' ''HOURLY'' ''-3''
       = Inl RequestError
   \<and> (\<exists>st'. run (sample_world ''WTEQ'' [reading_0500] 1730477107000000000) (sample_args ''XXXXX'') fresh
               = (Inl (UnboundLocalError ''all_data_df''), st')
          \<and> files st' = files fresh
          \<and> log st' = [''scraping started'', ''improper character length for LID'', ''scraping completed''])"
proof -
  let ?w = "sample_world ''WTEQ'' [reading_0500] 1730477107000000000"
  let ?a = "sample_args ''XXXXX''"
  have h1: "locid ?a \<noteq> ''all''"
    by (simp add: sample_args_def)
  have h2: "\<forall>r \<in> set (snotel_meta_df ?w). ShefId r \<noteq> locid ?a"
    by (simp add: sample_world_def sample_args_def)
  have d: "data_service ?w [] ''WTEQ'' ''HOURLY'' ''-3'' = Inl RequestError"
    by (simp add: sample_world_def)
  then have h3: "data_service ?w [] (params ?a) (duration ?a) (''-'' @ back ?a) = Inl RequestError
           \<or> data_service ?w [] (params ?a) (duration ?a) (''-'' @ back ?a) = Inr []"
    by (simp add: sample_args_def)
  have t: "map ShefId (snotel_meta_df ?w) = [''CLJW1'']"
    by (simp add: sample_world_def)
  from lookup_miss_aborts_run [OF h1 h2 h3, of out_fmt max_call_ids fresh] h1 t d
  show ?thesis
    by (auto simp: run_def fresh_def)
qed


section \<open>The snapshot of a run with an unknown format\<close>

lemma files_bind:
  assumes "files (snd m) p = c" and "\<And>x st1. files st1 p = c \<Longrightarrow> files (snd (g x st1)) p = c"
  shows "files (snd (bind m g)) p = c"
  using assms by (cases m) (auto simp: bind_def split: sum.splits)

lemma files_os_remove: "q \<noteq> p \<Longrightarrow> files (snd (os_remove p st)) q = files st q"
  by (simp add: os_remove_def split: option.splits)

lemma files_copyfile: "q \<noteq> dst \<Longrightarrow> files (snd (copyfile src dst st)) q = files st q"
  by (simp add: copyfile_def split: option.splits)

lemma files_write_header: "q \<noteq> p \<Longrightarrow> files (snd (write_header now p f h st)) q = files st q"
  by (simp add: write_header_def Let_def split: option.splits)

lemma files_write_new_lines:
  "q \<noteq> out \<Longrightarrow> files (snd (write_new_lines l n out f st)) q = files st q"
  by (simp add: write_new_lines_def Let_def os_remove_def split: option.splits)

lemma files_remove_dup_lines:
  "q \<noteq> p \<Longrightarrow> q \<noteq> p @ ''.tmp'' \<Longrightarrow> files (snd (remove_dup_lines p st)) q = files st q"
  unfolding remove_dup_lines_def
  by (rule files_bind) (simp_all add: files_copyfile files_os_remove split: option.splits)

lemma publish_keeps_new_always:
  "files (snd (publish w f d st)) (new_fullfn d f) = files st (new_fullfn d f)"
  by (auto simp: publish_def Let_def files_copyfile files_write_header files_write_new_lines
        intro!: files_bind)

lemma finish_keeps_new_always:
  "files (snd (finish w f d st)) (new_fullfn d f) = files st (new_fullfn d f)"
  by (auto simp: finish_def Let_def files_copyfile files_remove_dup_lines intro!: files_bind)

lemma deliver_keeps_new_always:
  "files (snd (deliver w f d st)) (new_fullfn d f) = files st (new_fullfn d f)"
  unfolding deliver_def
  by (rule files_bind) (simp_all add: publish_keeps_new_always finish_keeps_new_always)

lemma main_writes_snapshot:
  assumes "run_snapshot w f l a = Inr t"
  shows "files (snd (main w f l a st)) (new_fullfn (duration a) f) = Some t"
proof -
  from run_snapshot_Inr [OF assms, of "logging_info ''scraping started'' st"]
  obtain data meta st1 final_df where
    a: "acquire w l a (logging_info ''scraping started'' st) = (Inr (Some data, Some meta), st1)" and
    j: "join_frames data meta = Inr final_df" and
    s: "snapshot_text w f (duration a) final_df = Inr t"
    by auto
  from emit_ok [OF s, of "logging_info ''scraping completed'' st1"] obtain st2 where
    f2': "files st2 = (files (logging_info ''scraping completed'' st1))(new_fullfn (duration a) f \<mapsto> t)" and
    e: "emit w f (duration a) final_df (logging_info ''scraping completed'' st1)
          = deliver w f (duration a) st2"
    by blast
  from f2' have f2: "files st2 (new_fullfn (duration a) f) = Some t"
    by simp
  from main_eq_emit [OF a j, of f] e deliver_keeps_new_always [of w f "duration a" st2] f2
  show ?thesis by simp
qed


text \<open>
  Claim C9, amended: for an output format other than csv and shef the program has no
  failure of its own and checks nothing before its network calls. A run whose fetching,
  joining and encoding succeed sends exactly the requests of the fetching, writes the
  new snapshot as the bulletin lines without header lines and, when no baseline exists,
  completes: it publishes that snapshot and makes it the baseline.
\<close>

theorem unknown_format_is_not_rejected:
  assumes "f \<noteq> ''csv''" and "f \<noteq> ''shef''"
      and "run_frame w l a = Inr final_df"
      and "join_out_lines (out_lines (duration a) final_df) = Inr t"
  shows "calls (snd (main w f l a st))
           = calls (snd (acquire w l a (logging_info ''scraping started'' st)))
         \<and> files (snd (main w f l a st)) (new_fullfn (duration a) f) = Some t
         \<and> (files st (last_fullfn (duration a) f) = None \<longrightarrow>
              (\<exists>st'. main w f l a st = (Inr (), st')
                 \<and> files st' (last_fullfn (duration a) f) = Some t
                 \<and> files st' (final_out_fullfn (utc_now w) (duration a) f)
                     = Some (concat (dedup (readlines t)))))"
proof -
  have r: "run_snapshot w f l a = Inr t"
    using assms by (simp add: run_snapshot_frame snapshot_text_unknown)
  have c: "files st (last_fullfn (duration a) f) = None \<longrightarrow>
              (\<exists>st'. main w f l a st = (Inr (), st')
                 \<and> files st' (last_fullfn (duration a) f) = Some t
                 \<and> files st' (final_out_fullfn (utc_now w) (duration a) f)
                     = Some (concat (dedup (readlines t))))"
    using main_without_baseline [OF r, of st] by blast
  from calls_main [of w f l a st] main_writes_snapshot [OF r, of st] c show ?thesis
    by blast
qed

theorem unknown_format_is_not_rejected_witness:
  "''json'' \<noteq> ''csv'' \<and> ''json'' \<noteq> ''shef''
   \<and> files fresh (last_fullfn ''HOURLY'' ''json'') = None
   \<and> calls (snd (main world_a ''json'' 95 (sample_args ''all'') fresh))
       = [DataCall [''679:WA:SNTL''] ''WTEQ'' ''HOURLY'' ''-3'', MetaCall [''679:WA:SNTL'']]
   \<and> files (snd (main world_a ''json'' 95 (sample_args ''all'') fresh)) (new_fullfn ''HOURLY'' ''json'')
       = Some (line_1300 @ [NL] @ line_1400 @ [NL] @ line_1600)
   \<and> fst (main world_a ''json'' 95 (sample_args ''all'') fresh) = Inr ()
   \<and> files (snd (main world_a ''json'' 95 (sample_args ''all'') fresh)) (last_fullfn ''HOURLY'' ''json'')
       = Some (line_1300 @ [NL] @ line_1400 @ [NL] @ line_1600)"
proof -
  have h1: "''json'' \<noteq> ''csv''" and h2: "''json'' \<noteq> ''shef''"
    by simp_all
  have h4: "join_out_lines (out_lines (duration (sample_args ''all''))
     [\<lparr>date = 1730437200000000000, value = ''12.3'', elementCode = ''WTEQ'',
              stationTriplet = ''679:WA:SNTL'', PE = Some ''SW'', dataTimeZone = - 8,
              shefId = ''CLJW1'', utcTime = 1730466000000000000\<rparr>,
            \<lparr>date = 1730440800000000000, value = ''12.4'', elementCode = ''WTEQ'',
              stationTriplet = ''679:WA:SNTL'', PE = Some ''SW'', dataTimeZone = - 8,
              shefId = ''CLJW1'', utcTime = 1730469600000000000\<rparr>,
            \<lparr>date = 1730448000000000000, value = ''12.6'', elementCode = ''WTEQ'',
              stationTriplet = ''679:WA:SNTL'', PE = Some ''SW'', dataTimeZone = - 8,
              shefId = ''CLJW1'', utcTime = 1730476800000000000\<rparr>])
     = Inr (line_1300 @ [NL] @ line_1400 @ [NL] @ line_1600)"
    using body_a by simp
  have h5: "files fresh (last_fullfn ''HOURLY'' ''json'') = None"
    by simp
  from unknown_format_is_not_rejected [OF h1 h2 frame_a h4, of fresh] calls_a h1 h2 h5
  show ?thesis
    by auto
qed


section \<open>Two runs in a row\<close>

lemma snapshot_p: "run_snapshot world_p ''shef'' 95 (sample_args ''all'') = Inr snap_p"
  by code_simp

lemma snapshot_d: "run_snapshot world_d ''shef'' 95 (sample_args ''all'') = Inr snap_d"
  by code_simp

lemma body_p: "drop 2 (readlines snap_p) = [line_1300 @ [NL], line_1400]"
  by code_simp

lemma body_c:
  "drop 2 (readlines snap_c) = [line_1300 @ [NL], line_1400 @ [NL], line_1500 @ [NL], line_1600]"
  by code_simp

lemma kept_q_eq: "delta_body 2 snap_p snap_c = kept_q"
  by code_simp

lemma length_kept_q: "1 < length kept_q"
  by (simp add: kept_q_def)

lemma published_q_eq:
  "readlines (concat (dedup (readlines (delta_header 1730484307000000000 ''shef'' @ concat kept_q))))
     = published_q"
  by code_simp


lemma published_p:
  "readlines (concat (dedup (readlines snap_p)))
     = [''TTAA00 KPTR 011705'' @ [NL], ''snotelWeb'' @ [NL], line_1300 @ [NL], line_1400]"
  by code_simp

lemma published_d:
  "readlines (concat (dedup (readlines snap_d)))
     = [''TTAA00 KPTR 011605'' @ [NL], ''snotelWeb'' @ [NL], line_1300 @ [NL], line_1400 @ [NL],
        line_1400]"
  by code_simp

lemma dedup_abacb:
  "concat (dedup (readlines abacb_text)) = [CHR ''a'', NL, CHR ''b'', NL, CHR ''c'', NL, CHR ''b'']"
  by code_simp

lemma readlines_abacb:
  "readlines abacb_text = [[CHR ''a'', NL], [CHR ''b'', NL], [CHR ''a'', NL], [CHR ''c'', NL], ''b'']"
  by code_simp


lemma run_c_after_p:
  assumes "files st (last_fullfn ''HOURLY'' ''shef'') = Some snap_p"
  shows "\<exists>st'. run world_c (sample_args ''all'') st = (Inr (), st')
           \<and> files st' (new_fullfn ''HOURLY'' ''shef'') = Some snap_c
           \<and> files st' (last_fullfn ''HOURLY'' ''shef'') = Some snap_c
           \<and> map_option readlines (files st' (final_out_fullfn 1730484307000000000 ''HOURLY'' ''shef''))
               = Some published_q"
proof -
  have b: "files st (last_fullfn (duration (sample_args ''all'')) ''shef'') = Some snap_p"
    using assms by simp
  have u: "utc_now world_c = 1730484307000000000"
    by (simp add: world_c_def)
  from main_with_baseline [OF snapshot_c b] length_kept_q obtain st' where
    m: "main world_c ''shef'' 95 (sample_args ''all'') st = (Inr (), st')" and
    f: "files st' (new_fullfn ''HOURLY'' ''shef'') = Some snap_c"
       "files st' (last_fullfn ''HOURLY'' ''shef'') = Some snap_c"
       "files st' (final_out_fullfn 1730484307000000000 ''HOURLY'' ''shef'')
          = Some (concat (dedup (readlines (delta_header 1730484307000000000 ''shef''
                    @ concat kept_q))))"
    by (auto simp: kept_q_eq u Let_def)
  from m f published_q_eq show ?thesis
    by (auto simp: run_def out_fmt_def max_call_ids_def)
qed

lemma run_p_facts:
  "run world_p (sample_args ''all'') fresh = (Inr (), state_p)"
  "files state_p (new_fullfn ''HOURLY'' ''shef'') = Some snap_p"
  "files state_p (last_fullfn ''HOURLY'' ''shef'') = Some snap_p"
  "map_option readlines (files state_p (final_out_fullfn 1730480707000000000 ''HOURLY'' ''shef''))
     = Some [''TTAA00 KPTR 011705'' @ [NL], ''snotelWeb'' @ [NL], line_1300 @ [NL], line_1400]"
proof -
  have b: "files fresh (last_fullfn (duration (sample_args ''all'')) ''shef'') = None"
    by simp
  have u: "utc_now world_p = 1730480707000000000"
    by (simp add: world_p_def)
  from main_without_baseline [OF snapshot_p b] obtain st' where
    m: "main world_p ''shef'' 95 (sample_args ''all'') fresh = (Inr (), st')" and
    f: "files st' (new_fullfn ''HOURLY'' ''shef'') = Some snap_p"
       "files st' (last_fullfn ''HOURLY'' ''shef'') = Some snap_p"
       "files st' (final_out_fullfn 1730480707000000000 ''HOURLY'' ''shef'')
          = Some (concat (dedup (readlines snap_p)))"
    by (auto simp: u)
  from m have s: "state_p = st'"
    by (simp add: state_p_def run_def out_fmt_def max_call_ids_def)
  from m s show "run world_p (sample_args ''all'') fresh = (Inr (), state_p)"
    by (simp add: run_def out_fmt_def max_call_ids_def)
  from f s published_p show
    "files state_p (new_fullfn ''HOURLY'' ''shef'') = Some snap_p"
    "files state_p (last_fullfn ''HOURLY'' ''shef'') = Some snap_p"
    "map_option readlines (files state_p (final_out_fullfn 1730480707000000000 ''HOURLY'' ''shef''))
       = Some [''TTAA00 KPTR 011705'' @ [NL], ''snotelWeb'' @ [NL], line_1300 @ [NL], line_1400]"
    by simp_all
qed

lemma run_q_facts:
  "run world_c (sample_args ''all'') state_p = (Inr (), state_q)"
  "files state_q (new_fullfn ''HOURLY'' ''shef'') = Some snap_c"
  "map_option readlines (files state_q (final_out_fullfn 1730484307000000000 ''HOURLY'' ''shef''))
     = Some published_q"
proof -
  from run_c_after_p [OF run_p_facts(3)] obtain st' where
    m: "run world_c (sample_args ''all'') state_p = (Inr (), st')" and
    f: "files st' (new_fullfn ''HOURLY'' ''shef'') = Some snap_c"
       "map_option readlines (files st' (final_out_fullfn 1730484307000000000 ''HOURLY'' ''shef''))
          = Some published_q"
    by blast
  from m have s: "state_q = st'"
    by (simp add: state_q_def)
  from m f s show
    "run world_c (sample_args ''all'') state_p = (Inr (), state_q)"
    "files state_q (new_fullfn ''HOURLY'' ''shef'') = Some snap_c"
    "map_option readlines (files state_q (final_out_fullfn 1730484307000000000 ''HOURLY'' ''shef''))
       = Some published_q"
    by simp_all
qed



lemma run_d_facts:
  "run world_d (sample_args ''all'') fresh = (Inr (), state_d)"
  "files state_d (new_fullfn ''HOURLY'' ''shef'') = Some snap_d"
  "map_option readlines (files state_d (final_out_fullfn 1730477107000000000 ''HOURLY'' ''shef''))
     = Some [''TTAA00 KPTR 011605'' @ [NL], ''snotelWeb'' @ [NL], line_1300 @ [NL], line_1400 @ [NL],
             line_1400]"
proof -
  have b: "files fresh (last_fullfn (duration (sample_args ''all'')) ''shef'') = None"
    by simp
  have u: "utc_now world_d = 1730477107000000000"
    by (simp add: world_d_def)
  from main_without_baseline [OF snapshot_d b] obtain st' where
    m: "main world_d ''shef'' 95 (sample_args ''all'') fresh = (Inr (), st')" and
    f: "files st' (new_fullfn ''HOURLY'' ''shef'') = Some snap_d"
       "files st' (final_out_fullfn 1730477107000000000 ''HOURLY'' ''shef'')
          = Some (concat (dedup (readlines snap_d)))"
    by (auto simp: u)
  from m have s: "state_d = st'"
    by (simp add: state_d_def run_def out_fmt_def max_call_ids_def)
  from m s show "run world_d (sample_args ''all'') fresh = (Inr (), state_d)"
    by (simp add: run_def out_fmt_def max_call_ids_def)
  from f s published_d show
    "files state_d (new_fullfn ''HOURLY'' ''shef'') = Some snap_d"
    "map_option readlines (files state_d (final_out_fullfn 1730477107000000000 ''HOURLY'' ''shef''))
       = Some [''TTAA00 KPTR 011605'' @ [NL], ''snotelWeb'' @ [NL], line_1300 @ [NL], line_1400 @ [NL],
               line_1400]"
    by simp_all
qed


text \<open>
  Claim C1 against the code: the differ compares the lines with their line terminators,
  and line 291 writes the last line of a snapshot without one. The first run of the
  sample station leaves the baseline body [13:00, 14:00]; the second run's snapshot has
  the body [13:00, 14:00, 15:00, 16:00]; the differ keeps [14:00, 15:00, 16:00] and the
  line of 14:00, which is in the baseline, is published again.
\<close>

theorem differ_keeps_baseline_last_line:
  "run world_p (sample_args ''all'') fresh = (Inr (), state_p)
   \<and> files state_p (last_fullfn ''HOURLY'' ''shef'') = Some snap_p
   \<and> drop 2 (readlines snap_p) = [line_1300 @ [NL], line_1400]
   \<and> run world_c (sample_args ''all'') state_p = (Inr (), state_q)
   \<and> files state_q (new_fullfn ''HOURLY'' ''shef'') = Some snap_c
   \<and> drop 2 (readlines snap_c) = [line_1300 @ [NL], line_1400 @ [NL], line_1500 @ [NL], line_1600]
   \<and> delta_body 2 snap_p snap_c = [line_1400 @ [NL], line_1500 @ [NL], line_1600]
   \<and> map_option readlines (files state_q (final_out_fullfn 1730484307000000000 ''HOURLY'' ''shef''))
       = Some [''TTAA00 KPTR 011805'' @ [NL], ''snotelWeb'' @ [NL],
               line_1400 @ [NL], line_1500 @ [NL], line_1600]"
  using run_p_facts(1,3) body_p run_q_facts body_c kept_q_eq
  by (simp add: kept_q_def published_q_def)

text \<open>
  Claim C6 against the code: the deduplicator compares the lines with their line
  terminators, and the last line of a file written by the program has none. The file
  of the lines a, b, a, c, b keeps its second b; and the first run of the sample station,
  when the service sends the reading of 06:00 twice, publishes the line of 14:00 twice.
\<close>

theorem dedup_keeps_unterminated_duplicate:
  "readlines abacb_text = [[CHR ''a'', NL], [CHR ''b'', NL], [CHR ''a'', NL], [CHR ''c'', NL], ''b'']
   \<and> fst (remove_dup_lines ''f'' abacb_state) = Inr ()
   \<and> files (snd (remove_dup_lines ''f'' abacb_state)) ''f''
       = Some [CHR ''a'', NL, CHR ''b'', NL, CHR ''c'', NL, CHR ''b'']
   \<and> run world_d (sample_args ''all'') fresh = (Inr (), state_d)
   \<and> files state_d (new_fullfn ''HOURLY'' ''shef'') = Some snap_d
   \<and> map_option readlines (files state_d (final_out_fullfn 1730477107000000000 ''HOURLY'' ''shef''))
       = Some [''TTAA00 KPTR 011605'' @ [NL], ''snotelWeb'' @ [NL], line_1300 @ [NL],
               line_1400 @ [NL], line_1400]"
proof -
  have h: "files abacb_state ''f'' = Some abacb_text"
    by (simp add: abacb_state_def)
  from remove_dup_lines_files [OF h] dedup_abacb
  have "fst (remove_dup_lines ''f'' abacb_state) = Inr ()
        \<and> files (snd (remove_dup_lines ''f'' abacb_state)) ''f''
            = Some [CHR ''a'', NL, CHR ''b'', NL, CHR ''c'', NL, CHR ''b'']"
    by auto
  with readlines_abacb run_d_facts show ?thesis
    by simp
qed

section \<open>The baseline of the next run\<close>






end
